theory Spec2Isabelle
  imports Complex_Main "HOL-Library.Sublist"
begin

section \<open>The ordered score index (src/bst.py)\<close>

text \<open>
  Python floats are modelled by \<^typ>\<open>real\<close>: comparisons and arithmetic are the exact
  ones, so rounding, infinities and NaN are outside this development.

  A \<^verbatim>\<open>BSTNode\<close> has a key, a value (called payload here) and two optional children;
  \<^verbatim>\<open>None\<close> is the constructor \<open>NoNode\<close>. The class \<^verbatim>\<open>BST\<close> holds nothing but its
  root, so a tree object is modelled by its root. The Python code updates the nodes in
  place; no node is shared between two trees, so the functions below return the
  updated tree.
\<close>

datatype 'v bst_node =
  NoNode
| BSTNode real 'v "'v bst_node" "'v bst_node"

text \<open>The arguments of \<open>BSTNode\<close> are key, payload, left and right, as in the dataclass.\<close>

definition bst_init :: "'v bst_node" where
  "bst_init = NoNode"

fun insert_rec :: "'v bst_node \<Rightarrow> real \<Rightarrow> 'v \<Rightarrow> 'v bst_node" where
  "insert_rec NoNode k v = BSTNode k v NoNode NoNode"
| "insert_rec (BSTNode nk nv l r) k v =
     (if k > nk then BSTNode nk nv l (insert_rec r k v)
      else BSTNode nk nv (insert_rec l k v) r)"

definition bst_insert :: "'v bst_node \<Rightarrow> real \<Rightarrow> 'v \<Rightarrow> 'v bst_node" where
  "bst_insert tree k v = insert_rec tree k v"

text \<open>
  \<^verbatim>\<open>_reverse_inorder(node, result)\<close> appends to the list it is given; the model
  returns the extended list.
\<close>

fun reverse_inorder :: "'v bst_node \<Rightarrow> 'v list \<Rightarrow> 'v list" where
  "reverse_inorder NoNode result = result"
| "reverse_inorder (BSTNode nk nv l r) result =
     reverse_inorder l (reverse_inorder r result @ [nv])"

definition get_ranked_descending :: "'v bst_node \<Rightarrow> 'v list" where
  "get_ranked_descending tree = reverse_inorder tree []"

fun count_less_rec :: "'v bst_node \<Rightarrow> real \<Rightarrow> int" where
  "count_less_rec NoNode threshold = 0"
| "count_less_rec (BSTNode nk nv l r) threshold =
     (if nk < threshold then 1 else 0)
       + count_less_rec l threshold + count_less_rec r threshold"

definition count_less_than :: "'v bst_node \<Rightarrow> real \<Rightarrow> int" where
  "count_less_than tree threshold = count_less_rec tree threshold"

text \<open>\<^verbatim>\<open>get_max\<close>: the loop walks to the rightmost node.\<close>

fun rightmost :: "real \<Rightarrow> 'v \<Rightarrow> 'v bst_node \<Rightarrow> real \<times> 'v" where
  "rightmost nk nv NoNode = (nk, nv)"
| "rightmost nk nv (BSTNode rk rv l r) = rightmost rk rv r"

fun get_max :: "'v bst_node \<Rightarrow> (real \<times> 'v) option" where
  "get_max NoNode = None"
| "get_max (BSTNode nk nv l r) = Some (rightmost nk nv r)"

text \<open>A sequence of \<^verbatim>\<open>insert(key, value)\<close> calls on a fresh tree, first call first.\<close>

definition insert_all :: "(real \<times> 'v) list \<Rightarrow> 'v bst_node" where
  "insert_all kvs = fold (\<lambda>kv tree. bst_insert tree (fst kv) (snd kv)) kvs bst_init"

text \<open>
  \<^verbatim>\<open>list.sort(key=f, reverse=True)\<close>, as \<^verbatim>\<open>rank_symbols\<close> calls it. Python's sort is
  stable, and with \<^verbatim>\<open>reverse=True\<close> elements with equal keys still keep their original
  order: CPython reverses the list, sorts it stably in ascending order and reverses
  the result. \<^const>\<open>sort_key\<close> is a stable ascending insertion sort.
\<close>

definition py_sort_desc :: "('a \<Rightarrow> real) \<Rightarrow> 'a list \<Rightarrow> 'a list" where
  "py_sort_desc f xs = rev (sort_key f (rev xs))"

subsection \<open>Specification functions for the tree\<close>

text \<open>
  The traversal of \<^const>\<open>reverse_inorder\<close> again, keeping each payload's key beside
  it: right subtree, node, left subtree.
\<close>

fun nodes_desc :: "'v bst_node \<Rightarrow> (real \<times> 'v) list" where
  "nodes_desc NoNode = []"
| "nodes_desc (BSTNode nk nv l r) = nodes_desc r @ (nk, nv) # nodes_desc l"

text \<open>The search-tree invariant: keys on the left are at most the node's key, keys on
  the right are greater.\<close>

fun bst_ok :: "'v bst_node \<Rightarrow> bool" where
  "bst_ok NoNode = True"
| "bst_ok (BSTNode nk nv l r) =
     ((\<forall>p \<in> set (nodes_desc l). fst p \<le> nk) \<and> (\<forall>p \<in> set (nodes_desc r). nk < fst p)
       \<and> bst_ok l \<and> bst_ok r)"

section \<open>The trading cycle (src/bot.py)\<close>

subsection \<open>Data\<close>

type_synonym symbol = string

text \<open>
  One element of the ranking, as \<^verbatim>\<open>rank_symbols\<close> builds it:
  \<^verbatim>\<open>(sym, trend, short_avg, long_avg, latest)\<close>.
\<close>

type_synonym score_entry = "symbol \<times> real \<times> real \<times> real \<times> real"

definition entry_symbol :: "score_entry \<Rightarrow> symbol" where
  "entry_symbol e = fst e"

definition entry_trend :: "score_entry \<Rightarrow> real" where
  "entry_trend e = fst (snd e)"

definition entry_latest :: "score_entry \<Rightarrow> real" where
  "entry_latest e = snd (snd (snd (snd e)))"

text \<open>
  What a call of an Alpaca client can raise: the library's \<^verbatim>\<open>APIError\<close> with its
  message, or any other exception. The exceptions that leave the functions of
  \<^verbatim>\<open>bot.py\<close> are those, unchanged, and the ones the functions raise themselves.
\<close>

datatype upstream = APIError string | OtherException string

datatype runtime_error =
  SipNotPermitted
| Unauthorized401
| NotEnoughBars symbol int nat

datatype exn =
  RuntimeError runtime_error
| Upstream upstream
| ZeroDivisionError
| IndexError
| ValueError

text \<open>The fields of \<^verbatim>\<open>Settings\<close> that \<^verbatim>\<open>run_once\<close> reads after the clients are built
  (the credentials only build the clients).\<close>

record settings =
  paper :: bool
  data_feed :: string
  watchlist :: "symbol list"
  cash_start :: real
  max_shares :: int
  shares_per_trade :: int
  wait_days :: int
  short_window :: int
  long_window :: int

datatype order_side = OrderSide_BUY | OrderSide_SELL

text \<open>
  The broker and the data provider are outside the program. They are a parameter of
  the model: a state \<open>'w\<close> of the outside world and one function for each client
  method the program calls, which returns the answer (or the exception raised) and
  the next state of the world. \<^verbatim>\<open>get_stock_bars\<close> answers with \<^verbatim>\<open>bars.data\<close>, a
  dictionary from symbols to the closes of their daily bars, oldest first;
  \<^verbatim>\<open>get_open_position\<close> answers with \<^verbatim>\<open>float(pos.qty)\<close>, and every exception raised
  inside the \<^verbatim>\<open>try\<close> block of \<^verbatim>\<open>current_position_qty\<close> is its \<open>Inl\<close>; \<^verbatim>\<open>get_clock\<close>
  answers with \<^verbatim>\<open>clock.is_open\<close> and \<^verbatim>\<open>get_account\<close> with \<^verbatim>\<open>float(account.cash)\<close>.
\<close>

record 'w clients =
  get_stock_bars :: "'w \<Rightarrow> symbol \<Rightarrow> string \<Rightarrow> upstream + ((symbol \<rightharpoonup> real list) \<times> 'w)"
  get_open_position :: "'w \<Rightarrow> symbol \<Rightarrow> (upstream + real) \<times> 'w"
  submit_order :: "'w \<Rightarrow> symbol \<Rightarrow> int \<Rightarrow> order_side \<Rightarrow> upstream + 'w"
  get_clock :: "'w \<Rightarrow> upstream + (bool \<times> 'w)"
  get_account :: "'w \<Rightarrow> upstream + (real \<times> 'w)"

text \<open>
  A value of the dictionary \<^verbatim>\<open>state["last_trade_day"]\<close>, read from a JSON file: a
  falsy value (\<^verbatim>\<open>null\<close>, the empty string), a string that \<^verbatim>\<open>strptime\<close> parses with
  \<^verbatim>\<open>%Y-%m-%d\<close>, modelled by the number of the day it names, or anything else. A day
  is the number of a calendar date (UTC), so that the difference of two days is the
  number of days between them. On anything else \<^verbatim>\<open>strptime\<close> raises (\<^verbatim>\<open>ValueError\<close>,
  or \<^verbatim>\<open>TypeError\<close> when the value is not a string); the model has \<open>ValueError\<close> for
  both.
\<close>

datatype stored_day = Falsy | DayString int | Malformed

text \<open>The lines the trading loops print, one for each decision taken:
  \<^verbatim>\<open>sell SYM qty=..\<close>, \<^verbatim>\<open>buy SYM qty=..\<close> and
  \<^verbatim>\<open>no buy SYM: waited=.. under_max=.. can_afford=..\<close>.\<close>

datatype decision =
  Sell symbol int
| Buy symbol int
| NoBuy symbol int bool bool

fun decision_symbol :: "decision \<Rightarrow> symbol" where
  "decision_symbol (Sell symb qty) = symb"
| "decision_symbol (Buy symb qty) = symb"
| "decision_symbol (NoBuy symb waited under_max can_afford) = symb"

fun is_sell :: "decision \<Rightarrow> bool" where
  "is_sell (Sell symb qty) = True"
| "is_sell (Buy symb qty) = False"
| "is_sell (NoBuy symb waited under_max can_afford) = False"

text \<open>
  The variables \<^verbatim>\<open>run_once\<close> changes while it trades: the world behind the clients,
  the local \<^verbatim>\<open>cash\<close>, the dictionary \<^verbatim>\<open>state["last_trade_day"]\<close> and the lines
  printed so far.
\<close>

record 'w run_state =
  world :: 'w
  cash :: real
  last_trade_day :: "symbol \<rightharpoonup> stored_day"
  decisions :: "decision list"

subsection \<open>Helpers of Python\<close>

text \<open>\<^verbatim>\<open>sub in s\<close> on strings.\<close>

fun contains :: "string \<Rightarrow> string \<Rightarrow> bool" where
  "contains [] sub = (sub = [])"
| "contains (c # cs) sub = (prefix sub (c # cs) \<or> contains cs sub)"

text \<open>
  The slice \<^verbatim>\<open>xs[-n:]\<close>: the last \<open>n\<close> elements (all of them when there are fewer)
  for a positive \<open>n\<close>; the whole list for \<open>n = 0\<close>, since \<^verbatim>\<open>-0\<close> is \<^verbatim>\<open>0\<close>; and the
  list without its first \<open>-n\<close> elements for a negative \<open>n\<close>.
\<close>

definition py_last_n :: "int \<Rightarrow> 'a list \<Rightarrow> 'a list" where
  "py_last_n n xs =
     (if n > 0 then drop (length xs - nat n) xs
      else if n = 0 then xs
      else drop (nat (- n)) xs)"

text \<open>\<^verbatim>\<open>xs[-1]\<close>.\<close>

definition py_last :: "'a list \<Rightarrow> exn + 'a" where
  "py_last xs = (if xs = [] then Inl IndexError else Inr (last xs))"

text \<open>\<^verbatim>\<open>int(x)\<close> on a float: truncation towards zero.\<close>

definition py_int :: "real \<Rightarrow> int" where
  "py_int x = (if x \<ge> 0 then \<lfloor>x\<rfloor> else \<lceil>x\<rceil>)"

subsection \<open>Scoring and ranking\<close>

definition sma :: "real list \<Rightarrow> exn + real" where
  "sma prices =
     (if length prices = 0 then Inl ZeroDivisionError
      else Inr (sum_list prices / real (length prices)))"

definition get_last_n_closes ::
  "'w clients \<Rightarrow> 'w \<Rightarrow> symbol \<Rightarrow> int \<Rightarrow> string \<Rightarrow> exn + (real list \<times> 'w)" where
  "get_last_n_closes cl w symb n feed =
     (case get_stock_bars cl w symb feed of
        Inl (APIError msg) \<Rightarrow>
          if contains msg ''subscription does not permit'' \<and> contains msg ''SIP''
          then Inl (RuntimeError SipNotPermitted)
          else if contains msg ''401'' \<or> contains msg ''Unauthorized''
                  \<or> contains msg ''Authorization Required''
          then Inl (RuntimeError Unauthorized401)
          else Inl (Upstream (APIError msg))
      | Inl (OtherException msg) \<Rightarrow> Inl (Upstream (OtherException msg))
      | Inr (bars, w') \<Rightarrow>
          let series = (case bars symb of None \<Rightarrow> [] | Some bs \<Rightarrow> bs);
              closes = series
          in if int (length closes) < n
             then Inl (RuntimeError (NotEnoughBars symb n (length closes)))
             else Inr (py_last_n n closes, w'))"

text \<open>The loop of \<^verbatim>\<open>rank_symbols\<close>; \<open>ranked\<close> is the list built so far.\<close>

fun rank_loop ::
  "'w clients \<Rightarrow> 'w \<Rightarrow> symbol list \<Rightarrow> int \<Rightarrow> int \<Rightarrow> string \<Rightarrow> score_entry list
     \<Rightarrow> exn + (score_entry list \<times> 'w)" where
  "rank_loop cl w [] sw lw feed ranked = Inr (ranked, w)"
| "rank_loop cl w (symb # syms) sw lw feed ranked =
     (case get_last_n_closes cl w symb lw feed of
        Inl e \<Rightarrow> Inl e
      | Inr (closes_long, w') \<Rightarrow>
          (case sma (py_last_n sw closes_long) of
             Inl e \<Rightarrow> Inl e
           | Inr short_avg \<Rightarrow>
               (case sma closes_long of
                  Inl e \<Rightarrow> Inl e
                | Inr long_avg \<Rightarrow>
                    (case py_last closes_long of
                       Inl e \<Rightarrow> Inl e
                     | Inr latest \<Rightarrow>
                         rank_loop cl w' syms sw lw feed
                           (ranked @ [(symb, short_avg - long_avg, short_avg, long_avg, latest)])))))"

definition rank_symbols ::
  "'w clients \<Rightarrow> 'w \<Rightarrow> symbol list \<Rightarrow> int \<Rightarrow> int \<Rightarrow> string
     \<Rightarrow> exn + (score_entry list \<times> 'w)" where
  "rank_symbols cl w symbols sw lw feed =
     (case rank_loop cl w symbols sw lw feed [] of
        Inl e \<Rightarrow> Inl e
      | Inr (ranked, w') \<Rightarrow> Inr (py_sort_desc entry_trend ranked, w'))"

subsection \<open>Cooldown days\<close>

fun parse_day :: "stored_day option \<Rightarrow> exn + int option" where
  "parse_day None = Inr None"
| "parse_day (Some Falsy) = Inr None"
| "parse_day (Some (DayString d)) = Inr (Some d)"
| "parse_day (Some Malformed) = Inl ValueError"

definition format_day :: "int \<Rightarrow> stored_day" where
  "format_day dt = DayString dt"

definition days_since :: "stored_day option \<Rightarrow> int \<Rightarrow> exn + int" where
  "days_since last_day today =
     (case parse_day last_day of
        Inl e \<Rightarrow> Inl e
      | Inr None \<Rightarrow> Inr (10 ^ 9)
      | Inr (Some last_d) \<Rightarrow> Inr (today - last_d))"

subsection \<open>Broker calls\<close>

definition current_position_qty :: "'w clients \<Rightarrow> 'w \<Rightarrow> symbol \<Rightarrow> int \<times> 'w" where
  "current_position_qty cl w symb =
     (case get_open_position cl w symb of
        (Inr q, w') \<Rightarrow> (py_int q, w')
      | (Inl e, w') \<Rightarrow> (0, w'))"

definition market_buy :: "'w clients \<Rightarrow> 'w \<Rightarrow> symbol \<Rightarrow> int \<Rightarrow> upstream + 'w" where
  "market_buy cl w symb qty = submit_order cl w symb qty OrderSide_BUY"

definition market_sell :: "'w clients \<Rightarrow> 'w \<Rightarrow> symbol \<Rightarrow> int \<Rightarrow> upstream + 'w" where
  "market_sell cl w symb qty = submit_order cl w symb qty OrderSide_SELL"

subsection \<open>The two trading loops and \<^verbatim>\<open>run_once\<close>\<close>

text \<open>One iteration of the loop under \<^verbatim>\<open>SELL RULE\<close>.\<close>

definition sell_step ::
  "'w clients \<Rightarrow> int \<Rightarrow> 'w run_state \<Rightarrow> score_entry \<Rightarrow> exn + 'w run_state" where
  "sell_step cl today st entry =
     (case entry of (symb, trend, short_avg, long_avg, latest) \<Rightarrow>
        (case current_position_qty cl (world st) symb of (qty, w1) \<Rightarrow>
           if qty \<le> 0 then Inr (st\<lparr>world := w1\<rparr>)
           else if short_avg < long_avg then
             (case market_sell cl w1 symb qty of
                Inl e \<Rightarrow> Inl (Upstream e)
              | Inr w2 \<Rightarrow>
                  Inr (st\<lparr>world := w2,
                          cash := cash st + of_int qty * latest,
                          last_trade_day := (last_trade_day st)(symb \<mapsto> format_day today),
                          decisions := decisions st @ [Sell symb qty]\<rparr>))
           else Inr (st\<lparr>world := w1\<rparr>)))"

fun sell_pass ::
  "'w clients \<Rightarrow> int \<Rightarrow> 'w run_state \<Rightarrow> score_entry list \<Rightarrow> exn + 'w run_state" where
  "sell_pass cl today st [] = Inr st"
| "sell_pass cl today st (entry # ranked) =
     (case sell_step cl today st entry of
        Inl e \<Rightarrow> Inl e
      | Inr st' \<Rightarrow> sell_pass cl today st' ranked)"

text \<open>One iteration of the loop under \<^verbatim>\<open>BUY RULE\<close>.\<close>

definition buy_step ::
  "'w clients \<Rightarrow> settings \<Rightarrow> int \<Rightarrow> 'w run_state \<Rightarrow> score_entry \<Rightarrow> exn + 'w run_state" where
  "buy_step cl cfg today st entry =
     (case entry of (symb, trend, short_avg, long_avg, price) \<Rightarrow>
        if trend \<le> 0 then Inr st
        else
          (case days_since (last_trade_day st symb) today of
             Inl e \<Rightarrow> Inl e
           | Inr waited \<Rightarrow>
               (case current_position_qty cl (world st) symb of (qty, w1) \<Rightarrow>
                  let cost = of_int (shares_per_trade cfg) * price;
                      can_afford = (cash st \<ge> cost);
                      under_max = (qty + shares_per_trade cfg \<le> max_shares cfg)
                  in if waited \<ge> wait_days cfg \<and> under_max \<and> can_afford then
                       (case market_buy cl w1 symb (shares_per_trade cfg) of
                          Inl e \<Rightarrow> Inl (Upstream e)
                        | Inr w2 \<Rightarrow>
                            Inr (st\<lparr>world := w2,
                                    cash := cash st - cost,
                                    last_trade_day :=
                                      (last_trade_day st)(symb \<mapsto> format_day today),
                                    decisions :=
                                      decisions st @ [Buy symb (shares_per_trade cfg)]\<rparr>))
                     else
                       Inr (st\<lparr>world := w1,
                               decisions :=
                                 decisions st @ [NoBuy symb waited under_max can_afford]\<rparr>))))"

fun buy_pass ::
  "'w clients \<Rightarrow> settings \<Rightarrow> int \<Rightarrow> 'w run_state \<Rightarrow> score_entry list
     \<Rightarrow> exn + 'w run_state" where
  "buy_pass cl cfg today st [] = Inr st"
| "buy_pass cl cfg today st (entry # ranked) =
     (case buy_step cl cfg today st entry of
        Inl e \<Rightarrow> Inl e
      | Inr st' \<Rightarrow> buy_pass cl cfg today st' ranked)"

text \<open>
  \<^verbatim>\<open>run_once\<close>. Its inputs are what \<^verbatim>\<open>load_settings\<close> and \<^verbatim>\<open>load_state\<close> return, the
  day of \<^verbatim>\<open>datetime.now(timezone.utc)\<close> and the world. \<open>Inr st\<close> is a return
  after \<^verbatim>\<open>save_state(state)\<close>: \<open>last_trade_day st\<close> is the dictionary written to the
  state file and \<open>decisions st\<close> the sell, buy and no-buy lines printed. \<open>Inl e\<close> is the
  exception \<open>e\<close> leaving \<^verbatim>\<open>run_once\<close>, which no \<^verbatim>\<open>save_state\<close> precedes.
\<close>

definition run_once ::
  "'w clients \<Rightarrow> settings \<Rightarrow> (symbol \<rightharpoonup> stored_day) \<Rightarrow> int \<Rightarrow> 'w \<Rightarrow> exn + 'w run_state" where
  "run_once cl cfg state today w =
     (case get_account cl w of
        Inl e \<Rightarrow> Inl (Upstream e)
      | Inr (account_cash, w1) \<Rightarrow>
          (case rank_symbols cl w1 (watchlist cfg) (short_window cfg) (long_window cfg)
                  (data_feed cfg) of
             Inl e \<Rightarrow> Inl e
           | Inr (ranked, w2) \<Rightarrow>
               (case get_clock cl w2 of
                  Inl e \<Rightarrow> Inl (Upstream e)
                | Inr (is_open, w3) \<Rightarrow>
                    let st = \<lparr>world = w3, cash = account_cash, last_trade_day = state,
                              decisions = []\<rparr>
                    in if \<not> is_open then Inr st
                       else
                         (case sell_pass cl today st ranked of
                            Inl e \<Rightarrow> Inl e
                          | Inr st1 \<Rightarrow> buy_pass cl cfg today st1 ranked))))"

subsection \<open>A broker for concrete runs\<close>

text \<open>
  A world for running the model on concrete inputs: the state of the world is the list
  of the orders received. The data provider has five closes of AAPL and of T and two
  of PFE; the account has 1000 in cash and holds ten shares of T and no other position
  (asking for one raises \<^verbatim>\<open>APIError\<close>), and the market is open.
\<close>

type_synonym order_book = "(symbol \<times> int \<times> order_side) list"

definition demo_bars :: "symbol \<rightharpoonup> real list" where
  "demo_bars =
     [''AAPL'' \<mapsto> [1, 2, 3, 4, 5], ''T'' \<mapsto> [9, 8, 7, 6, 5], ''PFE'' \<mapsto> [30, 31]]"

definition demo_clients :: "order_book clients" where
  "demo_clients =
     \<lparr>get_stock_bars = (\<lambda>w symb feed. Inr (demo_bars, w)),
      get_open_position =
        (\<lambda>w symb. (if symb = ''T'' then Inr 10 else Inl (APIError ''position does not exist''), w)),
      submit_order = (\<lambda>w symb qty sd. Inr (w @ [(symb, qty, sd)])),
      get_clock = (\<lambda>w. Inr (True, w)),
      get_account = (\<lambda>w. Inr (1000, w))\<rparr>"

text \<open>The same world with the market closed.\<close>

definition closed_clients :: "order_book clients" where
  "closed_clients = demo_clients\<lparr>get_clock := (\<lambda>w. Inr (False, w))\<rparr>"

definition demo_settings :: settings where
  "demo_settings =
     \<lparr>paper = True, data_feed = ''iex'', watchlist = [''T'', ''AAPL''], cash_start = 10000,
      max_shares = 300, shares_per_trade = 50, wait_days = 5, short_window = 2,
      long_window = 5\<rparr>"

definition demo_ranked :: "score_entry list" where
  "demo_ranked = [(''AAPL'', 3 / 2, 9 / 2, 3, 5), (''T'', - (3 / 2), 11 / 2, 7, 5)]"

definition demo_start :: "order_book run_state" where
  "demo_start = \<lparr>world = [], cash = 1000, last_trade_day = Map.empty, decisions = []\<rparr>"

text \<open>The state after the sell loop on \<open>demo_ranked\<close> from \<open>demo_start\<close> on day 100.\<close>

definition demo_sold :: "order_book run_state" where
  "demo_sold =
     \<lparr>world = [(''T'', 10, OrderSide_SELL)], cash = 1050,
      last_trade_day = [''T'' \<mapsto> DayString 100], decisions = [Sell ''T'' 10]\<rparr>"

text \<open>
  A start for the buy loop on day 100 in which every condition of a buy decides once.
  At most 55 shares of a symbol may be held and a trade is 50 shares. KO was last
  traded on day 95 and AAPL on day 97; T and PFE were never traded. The broker holds
  ten shares of T. The ranking lists KO, AAPL and T at the price 5, PFE at the price
  400, and F with a trend of 0.
\<close>

definition gate_settings :: settings where
  "gate_settings = demo_settings\<lparr>max_shares := 55\<rparr>"

definition gate_ranked :: "score_entry list" where
  "gate_ranked =
     [(''KO'', 4, 14, 10, 5), (''AAPL'', 3, 13, 10, 5), (''T'', 2, 12, 10, 5),
      (''PFE'', 1, 11, 10, 400), (''F'', 0, 10, 10, 5)]"

definition gate_start :: "order_book run_state" where
  "gate_start =
     \<lparr>world = [], cash = 1000,
      last_trade_day = [''KO'' \<mapsto> DayString 95, ''AAPL'' \<mapsto> DayString 97],
      decisions = []\<rparr>"

text \<open>The state after KO's iteration, and the state in which the loop ends.\<close>

definition gate_bought :: "order_book run_state" where
  "gate_bought =
     \<lparr>world = [(''KO'', 50, OrderSide_BUY)], cash = 750,
      last_trade_day = (last_trade_day gate_start)(''KO'' \<mapsto> DayString 100),
      decisions = [Buy ''KO'' 50]\<rparr>"

definition gate_final :: "order_book run_state" where
  "gate_final =
     gate_bought\<lparr>decisions :=
       [Buy ''KO'' 50, NoBuy ''AAPL'' 3 True True, NoBuy ''T'' (10 ^ 9) False True,
        NoBuy ''PFE'' (10 ^ 9) True False]\<rparr>"

text \<open>The state in which \<^verbatim>\<open>run_once\<close> returns in that world, started on day 100 with
  \<open>demo_settings\<close> and no earlier trade.\<close>

definition demo_final :: "order_book run_state" where
  "demo_final =
     \<lparr>world = [(''T'', 10, OrderSide_SELL), (''AAPL'', 50, OrderSide_BUY)], cash = 800,
      last_trade_day = [''T'' \<mapsto> DayString 100, ''AAPL'' \<mapsto> DayString 100],
      decisions = [Sell ''T'' 10, Buy ''AAPL'' 50]\<rparr>"

text \<open>The same world with one kind of call failing: the account query, the bars
  request, the clock query, every order, and the buy orders only.\<close>

definition account_down :: "order_book clients" where
  "account_down = demo_clients\<lparr>get_account := (\<lambda>w. Inl (OtherException ''connection refused''))\<rparr>"

definition data_down :: "order_book clients" where
  "data_down =
     demo_clients\<lparr>get_stock_bars := (\<lambda>w symb feed. Inl (APIError ''401 Unauthorized''))\<rparr>"

definition clock_down :: "order_book clients" where
  "clock_down = demo_clients\<lparr>get_clock := (\<lambda>w. Inl (OtherException ''connection refused''))\<rparr>"

definition orders_rejected :: "order_book clients" where
  "orders_rejected =
     demo_clients\<lparr>submit_order := (\<lambda>w symb qty sd. Inl (APIError ''rejected''))\<rparr>"

definition buys_rejected :: "order_book clients" where
  "buys_rejected =
     demo_clients\<lparr>submit_order :=
       (\<lambda>w symb qty sd.
          if sd = OrderSide_BUY then Inl (APIError ''rejected'')
          else Inr (w @ [(symb, qty, sd)]))\<rparr>"

text \<open>\<open>demo_settings\<close> with PFE, which has too few bars, on the watchlist.\<close>

definition pfe_settings :: settings where
  "pfe_settings = demo_settings\<lparr>watchlist := [''AAPL'', ''PFE'', ''T'']\<rparr>"

section \<open>Properties of the ordered score index\<close>

lemma reverse_inorder_nodes_desc:
  "reverse_inorder t acc = acc @ map snd (nodes_desc t)"
  by (induction t arbitrary: acc) auto

lemma get_ranked_descending_nodes_desc:
  "get_ranked_descending t = map snd (nodes_desc t)"
  by (simp add: get_ranked_descending_def reverse_inorder_nodes_desc)

lemma set_nodes_desc_insert_rec:
  "set (nodes_desc (insert_rec t k v)) = Set.insert (k, v) (set (nodes_desc t))"
  by (induction t) auto

lemma bst_ok_insert_rec: "bst_ok t \<Longrightarrow> bst_ok (insert_rec t k v)"
  by (induction t) (auto simp: set_nodes_desc_insert_rec)

lemma insort_key_before:
  "f x \<le> f y \<Longrightarrow> insort_key f x (l @ y # r) = insort_key f x l @ y # r"
  by (induction l) auto

lemma insort_key_after:
  "\<forall>a \<in> set l. f a < f x \<Longrightarrow> insort_key f x (l @ r) = l @ insort_key f x r"
  by (induction l) auto

text \<open>Read in ascending order, an insertion into the tree is an insertion into the
  sorted list of its nodes, before the first node whose key is not smaller.\<close>

lemma nodes_desc_insert_rec:
  "bst_ok t \<Longrightarrow>
   rev (nodes_desc (insert_rec t k v)) = insort_key fst (k, v) (rev (nodes_desc t))"
proof (induction t)
  case NoNode
  show ?case by simp
next
  case (BSTNode nk nv l r)
  show ?case
  proof (cases "k > nk")
    case True
    have small: "\<forall>a \<in> set (rev (nodes_desc l) @ [(nk, nv)]). fst a < fst (k, v)"
      using BSTNode.prems True by auto
    have "rev (nodes_desc (insert_rec (BSTNode nk nv l r) k v))
        = (rev (nodes_desc l) @ [(nk, nv)]) @ insort_key fst (k, v) (rev (nodes_desc r))"
      using True BSTNode by simp
    also have "\<dots> = insort_key fst (k, v) ((rev (nodes_desc l) @ [(nk, nv)]) @ rev (nodes_desc r))"
      using small
        insort_key_after [where f = fst and x = "(k, v)" and r = "rev (nodes_desc r)"
          and l = "rev (nodes_desc l) @ [(nk, nv)]"]
      by simp
    finally show ?thesis by simp
  next
    case False
    then have le: "fst (k, v) \<le> fst (nk, nv)" by simp
    have "rev (nodes_desc (insert_rec (BSTNode nk nv l r) k v))
        = insort_key fst (k, v) (rev (nodes_desc l)) @ (nk, nv) # rev (nodes_desc r)"
      using False BSTNode by simp
    also have "\<dots> = insort_key fst (k, v) (rev (nodes_desc l) @ (nk, nv) # rev (nodes_desc r))"
      using le
        insort_key_before [where f = fst and x = "(k, v)" and y = "(nk, nv)"
          and l = "rev (nodes_desc l)" and r = "rev (nodes_desc r)"]
      by simp
    finally show ?thesis by simp
  qed
qed

lemma insert_all_snoc:
  "insert_all (kvs @ [(k, v)]) = insert_rec (insert_all kvs) k v"
  by (simp add: insert_all_def bst_insert_def)

lemma bst_ok_insert_all: "bst_ok (insert_all kvs)"
proof (induction kvs rule: rev_induct)
  case Nil
  show ?case by (simp add: insert_all_def bst_init_def)
next
  case (snoc kv kvs)
  then show ?case
    by (cases kv) (simp add: insert_all_snoc bst_ok_insert_rec)
qed

lemma nodes_desc_insert_all:
  "nodes_desc (insert_all kvs) = py_sort_desc fst kvs"
proof -
  have "rev (nodes_desc (insert_all kvs)) = sort_key fst (rev kvs)"
  proof (induction kvs rule: rev_induct)
    case Nil
    show ?case by (simp add: insert_all_def bst_init_def)
  next
    case (snoc kv kvs)
    obtain k v where kv: "kv = (k, v)" by (cases kv)
    show ?case
      using snoc nodes_desc_insert_rec [OF bst_ok_insert_all, of kvs k v]
      by (simp add: kv insert_all_snoc)
  qed
  then have "rev (rev (nodes_desc (insert_all kvs))) = rev (sort_key fst (rev kvs))"
    by simp
  then show ?thesis by (simp add: py_sort_desc_def)
qed

lemma py_sort_desc_length: "length (py_sort_desc f xs) = length xs"
  by (simp add: py_sort_desc_def)

lemma py_sort_desc_sorted:
  "sorted_wrt (\<lambda>a b. a \<ge> b) (map f (py_sort_desc f xs))"
proof -
  have "sorted (map f (sort_key f (rev xs)))" by simp
  then have "sorted_wrt (\<lambda>a b. b \<le> a) (rev (map f (sort_key f (rev xs))))"
    by (simp only: sorted_wrt_rev)
  then show ?thesis by (simp add: py_sort_desc_def rev_map)
qed

text \<open>Stability: the elements of any one key come out in the order they went in.\<close>

lemma py_sort_desc_stable:
  "filter (\<lambda>x. f x = k) (py_sort_desc f xs) = filter (\<lambda>x. f x = k) xs"
proof -
  have "filter (\<lambda>x. f x = k) (sort_key f (rev xs)) = filter (\<lambda>x. f x = k) (rev xs)"
    by (rule sort_key_stable)
  then have "rev (filter (\<lambda>x. f x = k) (sort_key f (rev xs))) = rev (filter (\<lambda>x. f x = k) (rev xs))"
    by simp
  then show ?thesis by (simp add: py_sort_desc_def rev_filter)
qed

lemma py_sort_desc_set: "set (py_sort_desc f xs) = set xs"
  by (simp add: py_sort_desc_def)

lemma count_less_rec_nodes_desc:
  "count_less_rec t threshold = int (length (filter (\<lambda>p. fst p < threshold) (nodes_desc t)))"
  by (induction t) auto

text \<open>
  Claim C4. After any sequence of insertions into a fresh index,
  \<^verbatim>\<open>get_ranked_descending\<close> returns as many payloads as there were insertions; they
  are the payloads of the right-to-left traversal, and the keys along that traversal
  never increase.
\<close>

theorem ranked_descending_length_and_order:
  "length (get_ranked_descending (insert_all kvs)) = length kvs
   \<and> get_ranked_descending (insert_all kvs) = map snd (nodes_desc (insert_all kvs))
   \<and> sorted_wrt (\<lambda>a b. a \<ge> b) (map fst (nodes_desc (insert_all kvs)))"
proof -
  have len: "length (get_ranked_descending (insert_all kvs)) = length kvs"
    by (simp add: get_ranked_descending_nodes_desc nodes_desc_insert_all py_sort_desc_length)
  have ord: "sorted_wrt (\<lambda>a b. a \<ge> b) (map fst (nodes_desc (insert_all kvs)))"
    by (simp only: nodes_desc_insert_all py_sort_desc_sorted)
  show ?thesis
    using len ord get_ranked_descending_nodes_desc by blast
qed

text \<open>
  Claim C5. For any insertions and any threshold, \<^verbatim>\<open>count_less_than\<close> is the number of
  entries of the descending traversal whose key is strictly below the threshold (the
  payloads of that traversal are what \<^verbatim>\<open>get_ranked_descending\<close> returns).
\<close>

theorem count_less_than_counts_ranked:
  "count_less_than (insert_all kvs) t
     = int (length (filter (\<lambda>p. fst p < t) (nodes_desc (insert_all kvs))))
   \<and> get_ranked_descending (insert_all kvs) = map snd (nodes_desc (insert_all kvs))"
  by (simp add: count_less_than_def count_less_rec_nodes_desc get_ranked_descending_nodes_desc)

text \<open>
  Claim C9. Inserting (score, entry) pairs in order and reading the index in descending
  order gives the entries in the order of a stable descending sort by score, ties
  included: an entry inserted later with an equal score goes to the left subtree and
  is therefore visited later.
\<close>

theorem ranked_descending_is_stable_sort:
  "get_ranked_descending (insert_all kvs) = map snd (py_sort_desc fst kvs)"
  by (simp only: get_ranked_descending_nodes_desc nodes_desc_insert_all)

subsection \<open>The index on concrete insertions\<close>

lemmas bst_defs = insert_all_def bst_insert_def bst_init_def get_ranked_descending_def
  count_less_than_def py_sort_desc_def

theorem ranked_descending_length_and_order_witness:
  "get_ranked_descending (insert_all [(1, ''T''), (3, ''AAPL''), (2, ''PFE'')])
     = [''AAPL'', ''PFE'', ''T'']
   \<and> map fst (nodes_desc (insert_all [(1, ''T''), (3, ''AAPL''), (2, ''PFE'')])) = [3, 2, 1]"
  using ranked_descending_length_and_order [of "[(1, ''T''), (3, ''AAPL''), (2, ''PFE'')]"]
  by (simp add: bst_defs)

theorem count_less_than_counts_ranked_witness:
  "count_less_than (insert_all [(1, ''T''), (3, ''AAPL''), (2, ''PFE''), (2, ''KO'')]) 3 = 3
   \<and> count_less_than (insert_all [(1, ''T''), (3, ''AAPL''), (2, ''PFE''), (2, ''KO'')]) 2 = 1"
  using count_less_than_counts_ranked [of "[(1, ''T''), (3, ''AAPL''), (2, ''PFE''), (2, ''KO'')]" 3]
    count_less_than_counts_ranked [of "[(1, ''T''), (3, ''AAPL''), (2, ''PFE''), (2, ''KO'')]" 2]
  by (simp add: bst_defs)

theorem ranked_descending_is_stable_sort_witness:
  "get_ranked_descending (insert_all [(1, ''T''), (2, ''PFE''), (1, ''KO''), (2, ''AAPL'')])
     = [''PFE'', ''AAPL'', ''T'', ''KO'']
   \<and> map snd (py_sort_desc fst [(1, ''T''), (2, ''PFE''), (1, ''KO''), (2, ''AAPL'')])
     = [''PFE'', ''AAPL'', ''T'', ''KO'']"
  using ranked_descending_is_stable_sort [of "[(1, ''T''), (2, ''PFE''), (1, ''KO''), (2, ''AAPL'')]"]
  by (simp add: bst_defs)

section \<open>Properties of the trading loops\<close>

lemmas demo_defs =
  demo_clients_def demo_start_def demo_ranked_def demo_settings_def demo_bars_def

lemmas step_defs =
  sell_step_def buy_step_def current_position_qty_def market_sell_def market_buy_def
  py_int_def format_day_def days_since_def

text \<open>A loop over a list is the loop over a first part, then, unless that raised, the
  loop over the rest from the state reached.\<close>

lemma sell_pass_append:
  "sell_pass cl today st (xs @ ys) =
     (case sell_pass cl today st xs of Inl e \<Rightarrow> Inl e | Inr s \<Rightarrow> sell_pass cl today s ys)"
  by (induction xs arbitrary: st) (auto split: sum.splits)

lemma buy_pass_append:
  "buy_pass cl cfg today st (xs @ ys) =
     (case buy_pass cl cfg today st xs of Inl e \<Rightarrow> Inl e | Inr s \<Rightarrow> buy_pass cl cfg today s ys)"
  by (induction xs arbitrary: st) (auto split: sum.splits)


lemma buy_pass_split:
  assumes "buy_pass cl cfg today st (pre @ entry # post) = Inr st'"
  obtains s1 s2 where "buy_pass cl cfg today st pre = Inr s1"
    and "buy_step cl cfg today s1 entry = Inr s2"
    and "buy_pass cl cfg today s2 post = Inr st'"
  using assms by (auto simp: buy_pass_append split: sum.splits)

lemma sell_step_effect:
  assumes "sell_step cl today s1 (symb, trend, short_avg, long_avg, latest) = Inr s2"
  shows "(let qw = current_position_qty cl (world s1) symb; qty = fst qw in
            if qty > 0 \<and> short_avg < long_avg then
              market_sell cl (snd qw) symb qty = Inr (world s2)
              \<and> decisions s2 = decisions s1 @ [Sell symb qty]
              \<and> cash s2 = cash s1 + of_int qty * latest
              \<and> last_trade_day s2 = (last_trade_day s1)(symb \<mapsto> format_day today)
            else
              world s2 = snd qw \<and> decisions s2 = decisions s1 \<and> cash s2 = cash s1
              \<and> last_trade_day s2 = last_trade_day s1)"
proof -
  obtain qty w1 where qw: "current_position_qty cl (world s1) symb = (qty, w1)"
    by (cases "current_position_qty cl (world s1) symb")
  show ?thesis
  proof (cases "qty > 0 \<and> short_avg < long_avg")
    case True
    show ?thesis
    proof (cases "market_sell cl w1 symb qty")
      case (Inl e)
      then show ?thesis using assms qw True by (simp add: sell_step_def)
    next
      case (Inr w2)
      have "s2 = s1\<lparr>world := w2, cash := cash s1 + of_int qty * latest,
              last_trade_day := (last_trade_day s1)(symb \<mapsto> format_day today),
              decisions := decisions s1 @ [Sell symb qty]\<rparr>"
        using assms qw True Inr by (simp add: sell_step_def)
      then show ?thesis using qw True Inr by simp
    qed
  next
    case False
    have "s2 = s1\<lparr>world := w1\<rparr>"
      using assms qw False by (auto simp: sell_step_def split: if_splits)
    then show ?thesis using qw False by auto
  qed
qed

lemma buy_step_effect:
  assumes "buy_step cl cfg today s1 (symb, trend, short_avg, long_avg, price) = Inr s2"
  shows "if trend \<le> 0 then s2 = s1
         else (\<exists>waited. days_since (last_trade_day s1 symb) today = Inr waited \<and>
           (let qw = current_position_qty cl (world s1) symb; qty = fst qw;
                cost = of_int (shares_per_trade cfg) * price;
                under_max = (qty + shares_per_trade cfg \<le> max_shares cfg);
                can_afford = (cash s1 \<ge> cost)
            in if waited \<ge> wait_days cfg \<and> under_max \<and> can_afford then
                 market_buy cl (snd qw) symb (shares_per_trade cfg) = Inr (world s2)
                 \<and> decisions s2 = decisions s1 @ [Buy symb (shares_per_trade cfg)]
                 \<and> cash s2 = cash s1 - cost
                 \<and> last_trade_day s2 = (last_trade_day s1)(symb \<mapsto> format_day today)
               else
                 world s2 = snd qw
                 \<and> decisions s2 = decisions s1 @ [NoBuy symb waited under_max can_afford]
                 \<and> cash s2 = cash s1
                 \<and> last_trade_day s2 = last_trade_day s1))"
proof (cases "trend \<le> 0")
  case True
  then show ?thesis using assms by (simp add: buy_step_def)
next
  case False
  obtain qty w1 where qw: "current_position_qty cl (world s1) symb = (qty, w1)"
    by (cases "current_position_qty cl (world s1) symb")
  show ?thesis
  proof (cases "days_since (last_trade_day s1 symb) today")
    case (Inl e)
    then show ?thesis using assms False by (simp add: buy_step_def)
  next
    case (Inr waited)
    let ?ok = "waited \<ge> wait_days cfg \<and> qty + shares_per_trade cfg \<le> max_shares cfg
         \<and> cash s1 \<ge> of_int (shares_per_trade cfg) * price"
    show ?thesis
    proof (cases ?ok)
      case ok: True
      show ?thesis
      proof (cases "market_buy cl w1 symb (shares_per_trade cfg)")
        case (Inl e)
        then show ?thesis using assms False Inr qw ok by (simp add: buy_step_def)
      next
        case mb: (Inr w2)
        have "s2 = s1\<lparr>world := w2,
              cash := cash s1 - of_int (shares_per_trade cfg) * price,
              last_trade_day := (last_trade_day s1)(symb \<mapsto> format_day today),
              decisions := decisions s1 @ [Buy symb (shares_per_trade cfg)]\<rparr>"
          using assms False Inr qw ok mb by (simp add: buy_step_def)
        then show ?thesis using False Inr qw ok mb by simp
      qed
    next
      case nok: False
      have "s2 = s1\<lparr>world := w1,
              decisions := decisions s1 @ [NoBuy symb waited
                 (qty + shares_per_trade cfg \<le> max_shares cfg)
                 (cash s1 \<ge> of_int (shares_per_trade cfg) * price)]\<rparr>"
        using assms False Inr qw nok by (simp add: buy_step_def)
      then show ?thesis using False Inr qw nok by (simp add: Let_def)
    qed
  qed
qed



lemma days_since_Inr:
  assumes "days_since x today = Inr waited"
  shows "(x = None \<or> x = Some Falsy) \<and> waited = 10 ^ 9
         \<or> (\<exists>d. x = Some (DayString d) \<and> waited = today - d)"
proof (cases x)
  case None
  then show ?thesis using assms by (simp add: days_since_def)
next
  case (Some sd)
  then show ?thesis using assms by (cases sd) (simp_all add: days_since_def)
qed

lemma current_position_qty_explicit:
  "current_position_qty cl w symb =
     (case fst (get_open_position cl w symb) of
        Inl u \<Rightarrow> 0
      | Inr q \<Rightarrow> if 0 \<le> q then \<lfloor>q\<rfloor> else \<lceil>q\<rceil>,
      snd (get_open_position cl w symb))"
proof (cases "get_open_position cl w symb")
  case (Pair res w')
  then show ?thesis
    by (cases res) (simp_all add: current_position_qty_def py_int_def)
qed

text \<open>
  Claim C1. Take any entry of the ranking and a buy loop that runs to its end; \<open>s1\<close> is
  the state in which the loop reaches the entry and \<open>s2\<close> the state in which it leaves
  it. An entry with \<open>trend \<le> 0\<close> is skipped: nothing changes and the broker is not
  asked. Otherwise let \<open>waited\<close> be today minus the day stored for the symbol, or
  \<open>10 ^ 9\<close> when no day (or a falsy value) is stored; let \<open>qty\<close> be the quantity the
  broker reports for the symbol, truncated towards zero, or 0 when the query raises;
  and let \<open>cost = shares_per_trade * price\<close>. If \<open>waited \<ge> wait_days\<close>,
  \<open>qty + shares_per_trade \<le> max_shares\<close> and \<open>cash \<ge> cost\<close>, a buy order for
  \<open>shares_per_trade\<close> shares was accepted by the broker, one buy line for that quantity
  is added, the cash falls by \<open>cost\<close> and the symbol's stored day is today; if one of
  the three fails, no order is sent, a no-buy line with the three findings is added,
  and the cash and the stored days are unchanged.
\<close>

theorem buy_pass_entry:
  assumes "buy_pass cl cfg today st (pre @ (symb, trend, short_avg, long_avg, price) # post)
             = Inr st'"
  shows "\<exists>s1 s2. buy_pass cl cfg today st pre = Inr s1 \<and> buy_pass cl cfg today s2 post = Inr st' \<and>
          (if trend \<le> 0 then s2 = s1
           else (\<exists>waited.
             ((last_trade_day s1 symb = None \<or> last_trade_day s1 symb = Some Falsy)
                 \<and> waited = 10 ^ 9
               \<or> (\<exists>d. last_trade_day s1 symb = Some (DayString d) \<and> waited = today - d))
             \<and> (let pos = get_open_position cl (world s1) symb;
                    qty = (case fst pos of
                             Inl u \<Rightarrow> 0
                           | Inr q \<Rightarrow> if 0 \<le> q then \<lfloor>q\<rfloor> else \<lceil>q\<rceil>);
                    cost = of_int (shares_per_trade cfg) * price;
                    under_max = (qty + shares_per_trade cfg \<le> max_shares cfg);
                    can_afford = (cash s1 \<ge> cost)
                in if waited \<ge> wait_days cfg \<and> under_max \<and> can_afford then
                     submit_order cl (snd pos) symb (shares_per_trade cfg) OrderSide_BUY
                       = Inr (world s2)
                     \<and> decisions s2 = decisions s1 @ [Buy symb (shares_per_trade cfg)]
                     \<and> cash s2 = cash s1 - cost
                     \<and> last_trade_day s2 = (last_trade_day s1)(symb \<mapsto> DayString today)
                   else
                     world s2 = snd pos
                     \<and> decisions s2 = decisions s1 @ [NoBuy symb waited under_max can_afford]
                     \<and> cash s2 = cash s1
                     \<and> last_trade_day s2 = last_trade_day s1)))"
proof -
  obtain s1 s2 where a: "buy_pass cl cfg today st pre = Inr s1"
    and b: "buy_step cl cfg today s1 (symb, trend, short_avg, long_avg, price) = Inr s2"
    and c: "buy_pass cl cfg today s2 post = Inr st'"
    using assms by (rule buy_pass_split)
  note eff = buy_step_effect [OF b]
  have "if trend \<le> 0 then s2 = s1
           else (\<exists>waited.
             ((last_trade_day s1 symb = None \<or> last_trade_day s1 symb = Some Falsy)
                 \<and> waited = 10 ^ 9
               \<or> (\<exists>d. last_trade_day s1 symb = Some (DayString d) \<and> waited = today - d))
             \<and> (let pos = get_open_position cl (world s1) symb;
                    qty = (case fst pos of
                             Inl u \<Rightarrow> 0
                           | Inr q \<Rightarrow> if 0 \<le> q then \<lfloor>q\<rfloor> else \<lceil>q\<rceil>);
                    cost = of_int (shares_per_trade cfg) * price;
                    under_max = (qty + shares_per_trade cfg \<le> max_shares cfg);
                    can_afford = (cash s1 \<ge> cost)
                in if waited \<ge> wait_days cfg \<and> under_max \<and> can_afford then
                     submit_order cl (snd pos) symb (shares_per_trade cfg) OrderSide_BUY
                       = Inr (world s2)
                     \<and> decisions s2 = decisions s1 @ [Buy symb (shares_per_trade cfg)]
                     \<and> cash s2 = cash s1 - cost
                     \<and> last_trade_day s2 = (last_trade_day s1)(symb \<mapsto> DayString today)
                   else
                     world s2 = snd pos
                     \<and> decisions s2 = decisions s1 @ [NoBuy symb waited under_max can_afford]
                     \<and> cash s2 = cash s1
                     \<and> last_trade_day s2 = last_trade_day s1))"
  proof (cases "trend \<le> 0")
    case True
    then show ?thesis using eff by simp
  next
    case False
    then obtain waited where w: "days_since (last_trade_day s1 symb) today = Inr waited"
      and body: "(let qw = current_position_qty cl (world s1) symb; qty = fst qw;
                cost = of_int (shares_per_trade cfg) * price;
                under_max = (qty + shares_per_trade cfg \<le> max_shares cfg);
                can_afford = (cash s1 \<ge> cost)
            in if waited \<ge> wait_days cfg \<and> under_max \<and> can_afford then
                 market_buy cl (snd qw) symb (shares_per_trade cfg) = Inr (world s2)
                 \<and> decisions s2 = decisions s1 @ [Buy symb (shares_per_trade cfg)]
                 \<and> cash s2 = cash s1 - cost
                 \<and> last_trade_day s2 = (last_trade_day s1)(symb \<mapsto> format_day today)
               else
                 world s2 = snd qw
                 \<and> decisions s2 = decisions s1 @ [NoBuy symb waited under_max can_afford]
                 \<and> cash s2 = cash s1
                 \<and> last_trade_day s2 = last_trade_day s1)"
      using eff by auto
    note days = days_since_Inr [OF w]
    have body': "(let pos = get_open_position cl (world s1) symb;
                    qty = (case fst pos of
                             Inl u \<Rightarrow> 0
                           | Inr q \<Rightarrow> if 0 \<le> q then \<lfloor>q\<rfloor> else \<lceil>q\<rceil>);
                    cost = of_int (shares_per_trade cfg) * price;
                    under_max = (qty + shares_per_trade cfg \<le> max_shares cfg);
                    can_afford = (cash s1 \<ge> cost)
                in if waited \<ge> wait_days cfg \<and> under_max \<and> can_afford then
                     submit_order cl (snd pos) symb (shares_per_trade cfg) OrderSide_BUY
                       = Inr (world s2)
                     \<and> decisions s2 = decisions s1 @ [Buy symb (shares_per_trade cfg)]
                     \<and> cash s2 = cash s1 - cost
                     \<and> last_trade_day s2 = (last_trade_day s1)(symb \<mapsto> DayString today)
                   else
                     world s2 = snd pos
                     \<and> decisions s2 = decisions s1 @ [NoBuy symb waited under_max can_afford]
                     \<and> cash s2 = cash s1
                     \<and> last_trade_day s2 = last_trade_day s1)"
      using body
      unfolding Let_def current_position_qty_explicit fst_conv snd_conv market_buy_def
        format_day_def
      by assumption
    from days body' have "\<exists>waited.
             ((last_trade_day s1 symb = None \<or> last_trade_day s1 symb = Some Falsy)
                 \<and> waited = 10 ^ 9
               \<or> (\<exists>d. last_trade_day s1 symb = Some (DayString d) \<and> waited = today - d))
             \<and> (let pos = get_open_position cl (world s1) symb;
                    qty = (case fst pos of
                             Inl u \<Rightarrow> 0
                           | Inr q \<Rightarrow> if 0 \<le> q then \<lfloor>q\<rfloor> else \<lceil>q\<rceil>);
                    cost = of_int (shares_per_trade cfg) * price;
                    under_max = (qty + shares_per_trade cfg \<le> max_shares cfg);
                    can_afford = (cash s1 \<ge> cost)
                in if waited \<ge> wait_days cfg \<and> under_max \<and> can_afford then
                     submit_order cl (snd pos) symb (shares_per_trade cfg) OrderSide_BUY
                       = Inr (world s2)
                     \<and> decisions s2 = decisions s1 @ [Buy symb (shares_per_trade cfg)]
                     \<and> cash s2 = cash s1 - cost
                     \<and> last_trade_day s2 = (last_trade_day s1)(symb \<mapsto> DayString today)
                   else
                     world s2 = snd pos
                     \<and> decisions s2 = decisions s1 @ [NoBuy symb waited under_max can_afford]
                     \<and> cash s2 = cash s1
                     \<and> last_trade_day s2 = last_trade_day s1)"
      by (intro exI [of _ waited] conjI)
    then show ?thesis using False by (simp only: if_False)
  qed
  then show ?thesis using a c by blast
qed

theorem buy_pass_entry_witness:
  "buy_pass demo_clients gate_settings 100 gate_start
      ([] @ (''KO'', 4, 14, 10, 5) #
         [(''AAPL'', 3, 13, 10, 5), (''T'', 2, 12, 10, 5), (''PFE'', 1, 11, 10, 400),
          (''F'', 0, 10, 10, 5)]) = Inr gate_final
   \<and> buy_pass demo_clients gate_settings 100 gate_start [(''KO'', 4, 14, 10, 5)] = Inr gate_bought
   \<and> decisions gate_bought = decisions gate_start @ [Buy ''KO'' 50]
   \<and> cash gate_bought = cash gate_start - 50 * 5
   \<and> last_trade_day gate_bought ''KO'' = Some (DayString 100)
   \<and> decisions gate_final =
       [Buy ''KO'' 50, NoBuy ''AAPL'' 3 True True, NoBuy ''T'' 1000000000 False True,
        NoBuy ''PFE'' 1000000000 True False]
   \<and> cash gate_final = cash gate_bought
   \<and> last_trade_day gate_final = last_trade_day gate_bought
   \<and> world gate_final = [(''KO'', 50, OrderSide_BUY)]"
proof -
  have ko: "buy_pass demo_clients gate_settings 100 gate_start
      ([] @ (''KO'', 4, 14, 10, 5) #
         [(''AAPL'', 3, 13, 10, 5), (''T'', 2, 12, 10, 5), (''PFE'', 1, 11, 10, 400),
          (''F'', 0, 10, 10, 5)]) = Inr gate_final"
    by (simp add: demo_defs step_defs gate_settings_def gate_start_def gate_bought_def
        gate_final_def)
  have aapl: "buy_pass demo_clients gate_settings 100 gate_start
      ([(''KO'', 4, 14, 10, 5)] @ (''AAPL'', 3, 13, 10, 5) #
         [(''T'', 2, 12, 10, 5), (''PFE'', 1, 11, 10, 400), (''F'', 0, 10, 10, 5)])
      = Inr gate_final"
    using ko by simp
  have t: "buy_pass demo_clients gate_settings 100 gate_start
      ([(''KO'', 4, 14, 10, 5), (''AAPL'', 3, 13, 10, 5)] @ (''T'', 2, 12, 10, 5) #
         [(''PFE'', 1, 11, 10, 400), (''F'', 0, 10, 10, 5)])
      = Inr gate_final"
    using ko by simp
  have pfe: "buy_pass demo_clients gate_settings 100 gate_start
      ([(''KO'', 4, 14, 10, 5), (''AAPL'', 3, 13, 10, 5), (''T'', 2, 12, 10, 5)]
         @ (''PFE'', 1, 11, 10, 400) # [(''F'', 0, 10, 10, 5)])
      = Inr gate_final"
    using ko by simp
  have f: "buy_pass demo_clients gate_settings 100 gate_start
      ([(''KO'', 4, 14, 10, 5), (''AAPL'', 3, 13, 10, 5), (''T'', 2, 12, 10, 5),
        (''PFE'', 1, 11, 10, 400)] @ (''F'', 0, 10, 10, 5) # [])
      = Inr gate_final"
    using ko by simp
  have first: "buy_pass demo_clients gate_settings 100 gate_start [(''KO'', 4, 14, 10, 5)]
      = Inr gate_bought"
    by (simp add: demo_defs step_defs gate_settings_def gate_start_def gate_bought_def)
  show ?thesis
    using ko first buy_pass_entry [OF ko] buy_pass_entry [OF aapl] buy_pass_entry [OF t]
      buy_pass_entry [OF pfe] buy_pass_entry [OF f]
    by (simp add: gate_start_def gate_bought_def gate_final_def)
qed

lemma sell_step_decisions:
  assumes "sell_step cl today s1 e = Inr s2"
  shows "\<exists>ds. decisions s2 = decisions s1 @ ds \<and> list_all is_sell ds
           \<and> subseq (map decision_symbol ds) [entry_symbol e]"
proof -
  obtain symb trend short_avg long_avg latest
    where e: "e = (symb, trend, short_avg, long_avg, latest)" by (cases e)
  let ?qty = "fst (current_position_qty cl (world s1) symb)"
  show ?thesis
  proof (cases "?qty > 0 \<and> short_avg < long_avg")
    case True
    then have "decisions s2 = decisions s1 @ [Sell symb ?qty]"
      using sell_step_effect [OF assms [unfolded e]] by (simp add: Let_def)
    then show ?thesis by (simp add: e entry_symbol_def)
  next
    case False
    then have "decisions s2 = decisions s1 @ []"
      using sell_step_effect [OF assms [unfolded e]] by (auto simp add: Let_def)
    then show ?thesis by (intro exI [of _ "[]"]) simp
  qed
qed

lemma buy_step_decisions:
  assumes "buy_step cl cfg today s1 e = Inr s2"
  shows "\<exists>ds. decisions s2 = decisions s1 @ ds \<and> list_all (\<lambda>d. \<not> is_sell d) ds
           \<and> subseq (map decision_symbol ds) [entry_symbol e]"
proof -
  obtain symb trend short_avg long_avg price
    where e: "e = (symb, trend, short_avg, long_avg, price)" by (cases e)
  note eff = buy_step_effect [OF assms [unfolded e]]
  show ?thesis
  proof (cases "trend \<le> 0")
    case True
    then have "decisions s2 = decisions s1 @ []" using eff by simp
    then show ?thesis by (intro exI [of _ "[]"]) simp
  next
    case False
    then obtain d where "decisions s2 = decisions s1 @ [d]" "\<not> is_sell d" "decision_symbol d = symb"
      using eff by (auto simp: Let_def split: if_splits)
    then show ?thesis by (intro exI [of _ "[d]"]) (simp add: e entry_symbol_def)
  qed
qed

lemma sell_pass_decisions:
  "sell_pass cl today st ranked = Inr st' \<Longrightarrow>
   \<exists>ds. decisions st' = decisions st @ ds \<and> list_all is_sell ds
           \<and> subseq (map decision_symbol ds) (map entry_symbol ranked)"
proof (induction ranked arbitrary: st)
  case Nil
  then show ?case by simp
next
  case (Cons e ranked)
  from Cons.prems obtain s1 where s1: "sell_step cl today st e = Inr s1"
    and rest: "sell_pass cl today s1 ranked = Inr st'"
    by (auto split: sum.splits)
  from sell_step_decisions [OF s1] obtain d1 where d1: "decisions s1 = decisions st @ d1"
    "list_all is_sell d1" "subseq (map decision_symbol d1) [entry_symbol e]" by blast
  from Cons.IH [OF rest] obtain d2 where d2: "decisions st' = decisions s1 @ d2"
    "list_all is_sell d2" "subseq (map decision_symbol d2) (map entry_symbol ranked)" by blast
  have "subseq (map decision_symbol d1 @ map decision_symbol d2)
          ([entry_symbol e] @ map entry_symbol ranked)"
    using d1(3) d2(3) by (rule list_emb_append_mono)
  then show ?case
    using d1 d2 by (intro exI [of _ "d1 @ d2"]) simp
qed

lemma buy_pass_decisions:
  "buy_pass cl cfg today st ranked = Inr st' \<Longrightarrow>
   \<exists>ds. decisions st' = decisions st @ ds \<and> list_all (\<lambda>d. \<not> is_sell d) ds
           \<and> subseq (map decision_symbol ds) (map entry_symbol ranked)"
proof (induction ranked arbitrary: st)
  case Nil
  then show ?case by simp
next
  case (Cons e ranked)
  from Cons.prems obtain s1 where s1: "buy_step cl cfg today st e = Inr s1"
    and rest: "buy_pass cl cfg today s1 ranked = Inr st'"
    by (auto split: sum.splits)
  from buy_step_decisions [OF s1] obtain d1 where d1: "decisions s1 = decisions st @ d1"
    "list_all (\<lambda>d. \<not> is_sell d) d1" "subseq (map decision_symbol d1) [entry_symbol e]" by blast
  from Cons.IH [OF rest] obtain d2 where d2: "decisions st' = decisions s1 @ d2"
    "list_all (\<lambda>d. \<not> is_sell d) d2" "subseq (map decision_symbol d2) (map entry_symbol ranked)" by blast
  have "subseq (map decision_symbol d1 @ map decision_symbol d2)
          ([entry_symbol e] @ map entry_symbol ranked)"
    using d1(3) d2(3) by (rule list_emb_append_mono)
  then show ?case
    using d1 d2 by (intro exI [of _ "d1 @ d2"]) simp
qed

lemma rank_symbols_sorted:
  assumes "rank_symbols cl w symbols sw lw feed = Inr (ranked, w')"
  shows "sorted_wrt (\<lambda>a b. a \<ge> b) (map entry_trend ranked)"
  using assms py_sort_desc_sorted [of entry_trend]
  by (auto simp: rank_symbols_def split: sum.splits prod.splits)

text \<open>
  Claim C3. When \<^verbatim>\<open>run_once\<close> returns, the lines it printed are a block of sell lines
  followed by a block of buy and no-buy lines: every sell precedes every buy. The
  symbols of each block are a subsequence of the symbols of the ranking, in the
  ranking's order, and the ranking is in descending order of trend.
\<close>

theorem sells_precede_buys_in_ranking_order:
  assumes "run_once cl cfg state today w = Inr st"
  shows "\<exists>account_cash w1 ranked w2 sells buys.
           get_account cl w = Inr (account_cash, w1)
           \<and> rank_symbols cl w1 (watchlist cfg) (short_window cfg) (long_window cfg)
                 (data_feed cfg) = Inr (ranked, w2)
           \<and> sorted_wrt (\<lambda>a b. a \<ge> b) (map entry_trend ranked)
           \<and> decisions st = sells @ buys
           \<and> list_all is_sell sells
           \<and> list_all (\<lambda>d. \<not> is_sell d) buys
           \<and> subseq (map decision_symbol sells) (map entry_symbol ranked)
           \<and> subseq (map decision_symbol buys) (map entry_symbol ranked)"
proof -
  from assms obtain account_cash w1 where acc: "get_account cl w = Inr (account_cash, w1)"
    by (auto simp: run_once_def split: sum.splits)
  from assms acc obtain ranked w2 where rk:
    "rank_symbols cl w1 (watchlist cfg) (short_window cfg) (long_window cfg) (data_feed cfg)
       = Inr (ranked, w2)"
    by (auto simp: run_once_def split: sum.splits)
  from assms acc rk obtain is_open w3 where clk: "get_clock cl w2 = Inr (is_open, w3)"
    by (auto simp: run_once_def split: sum.splits)
  let ?st0 = "\<lparr>world = w3, cash = account_cash, last_trade_day = state, decisions = []\<rparr>"
  have srt: "sorted_wrt (\<lambda>a b. a \<ge> b) (map entry_trend ranked)"
    using rk by (rule rank_symbols_sorted)
  have "\<exists>sells buys. decisions st = sells @ buys
           \<and> list_all is_sell sells
           \<and> list_all (\<lambda>d. \<not> is_sell d) buys
           \<and> subseq (map decision_symbol sells) (map entry_symbol ranked)
           \<and> subseq (map decision_symbol buys) (map entry_symbol ranked)"
  proof (cases is_open)
    case False
    then have "st = ?st0" using assms acc rk clk by (simp add: run_once_def)
    then have "decisions st = [] @ []" by simp
    then show ?thesis by (intro exI [of _ "[]"]) simp
  next
    case True
    then obtain s1 where sp: "sell_pass cl today ?st0 ranked = Inr s1"
      and bp: "buy_pass cl cfg today s1 ranked = Inr st"
      using assms acc rk clk by (auto simp: run_once_def split: sum.splits)
    from sell_pass_decisions [OF sp] obtain sells where sells: "decisions s1 = sells"
      "list_all is_sell sells" "subseq (map decision_symbol sells) (map entry_symbol ranked)"
      by auto
    from buy_pass_decisions [OF bp] obtain buys where buys: "decisions st = decisions s1 @ buys"
      "list_all (\<lambda>d. \<not> is_sell d) buys" "subseq (map decision_symbol buys) (map entry_symbol ranked)"
      by auto
    show ?thesis using sells buys by blast
  qed
  then show ?thesis using acc rk srt by blast
qed

theorem sells_precede_buys_in_ranking_order_witness:
  "run_once demo_clients demo_settings Map.empty 100 [] = Inr demo_final
   \<and> decisions demo_final = [Sell ''T'' 10] @ [Buy ''AAPL'' 50]"
proof -
  have h: "run_once demo_clients demo_settings Map.empty 100 [] = Inr demo_final"
    by (simp add: run_once_def rank_symbols_def get_last_n_closes_def py_last_n_def
        py_last_def sma_def py_sort_desc_def entry_trend_def demo_defs step_defs demo_final_def)
  show ?thesis
    using h sells_precede_buys_in_ranking_order [OF h]
    by (simp add: demo_final_def)
qed

lemmas rank_defs =
  rank_symbols_def get_last_n_closes_def py_last_n_def py_last_def sma_def py_sort_desc_def
  entry_trend_def

lemma sell_step_cash:
  assumes "sell_step cl today s1 e = Inr s2" and "0 \<le> cash s1" and "0 \<le> entry_latest e"
  shows "0 \<le> cash s2"
proof -
  obtain symb trend short_avg long_avg latest
    where e: "e = (symb, trend, short_avg, long_avg, latest)" by (cases e)
  have latest: "0 \<le> latest" using assms(3) by (simp add: e entry_latest_def)
  let ?qty = "fst (current_position_qty cl (world s1) symb)"
  show ?thesis
  proof (cases "?qty > 0 \<and> short_avg < long_avg")
    case True
    then have "cash s2 = cash s1 + of_int ?qty * latest"
      using sell_step_effect [OF assms(1) [unfolded e]] by (simp add: Let_def)
    moreover have "0 \<le> of_int ?qty * latest" using True latest by simp
    ultimately show ?thesis using assms(2) by simp
  next
    case False
    then have "cash s2 = cash s1"
      using sell_step_effect [OF assms(1) [unfolded e]] by (auto simp add: Let_def)
    then show ?thesis using assms(2) by simp
  qed
qed

lemma buy_step_cash:
  assumes "buy_step cl cfg today s1 e = Inr s2" and "0 \<le> cash s1"
  shows "0 \<le> cash s2"
proof -
  obtain symb trend short_avg long_avg price
    where e: "e = (symb, trend, short_avg, long_avg, price)" by (cases e)
  note eff = buy_step_effect [OF assms(1) [unfolded e]]
  show ?thesis
  proof (cases "trend \<le> 0")
    case True
    then show ?thesis using eff assms(2) by simp
  next
    case False
    then show ?thesis using eff assms(2) by (auto simp: Let_def split: if_splits)
  qed
qed

lemma sell_pass_cash:
  "sell_pass cl today st ranked = Inr st' \<Longrightarrow> 0 \<le> cash st \<Longrightarrow>
   \<forall>e \<in> set ranked. 0 \<le> entry_latest e \<Longrightarrow> 0 \<le> cash st'"
proof (induction ranked arbitrary: st)
  case Nil
  then show ?case by simp
next
  case (Cons e ranked)
  from Cons.prems(1) obtain s1 where s1: "sell_step cl today st e = Inr s1"
    and rest: "sell_pass cl today s1 ranked = Inr st'"
    by (auto split: sum.splits)
  have "0 \<le> cash s1" using sell_step_cash [OF s1] Cons.prems by simp
  then show ?case using Cons.IH [OF rest] Cons.prems(3) by simp
qed

lemma buy_pass_cash:
  "buy_pass cl cfg today st ranked = Inr st' \<Longrightarrow> 0 \<le> cash st \<Longrightarrow> 0 \<le> cash st'"
proof (induction ranked arbitrary: st)
  case Nil
  then show ?case by simp
next
  case (Cons e ranked)
  from Cons.prems(1) obtain s1 where s1: "buy_step cl cfg today st e = Inr s1"
    and rest: "buy_pass cl cfg today s1 ranked = Inr st'"
    by (auto split: sum.splits)
  have "0 \<le> cash s1" using buy_step_cash [OF s1] Cons.prems by simp
  then show ?case using Cons.IH [OF rest] by simp
qed

text \<open>
  Claim C10. Start the sell loop with a cash balance that is not negative, on a ranking
  whose latest prices are not negative. Then the balance is not negative after any
  number of iterations of the sell loop, and, from the state the sell loop ends in,
  after any number of iterations of the buy loop: a sell adds \<open>qty * latest\<close> with
  \<open>qty > 0\<close>, and a buy subtracts \<open>cost\<close> only when \<open>cash \<ge> cost\<close>. (The state after
  some iterations of a loop is the result of the loop on that prefix of the ranking.)
\<close>

theorem cash_stays_non_negative:
  assumes "0 \<le> cash st" and "\<forall>e \<in> set ranked. 0 \<le> entry_latest e"
  shows "(\<forall>p s. prefix p ranked \<and> sell_pass cl today st p = Inr s \<longrightarrow> 0 \<le> cash s)
       \<and> (\<forall>s1 q s. sell_pass cl today st ranked = Inr s1 \<and> prefix q ranked
              \<and> buy_pass cl cfg today s1 q = Inr s \<longrightarrow> 0 \<le> cash s)"
proof (intro conjI allI impI)
  fix p s
  assume a: "prefix p ranked \<and> sell_pass cl today st p = Inr s"
  then have "set p \<subseteq> set ranked" by (auto dest: set_mono_prefix)
  then have "\<forall>e \<in> set p. 0 \<le> entry_latest e" using assms(2) by blast
  then show "0 \<le> cash s" using a assms(1) sell_pass_cash by blast
next
  fix s1 q s
  assume a: "sell_pass cl today st ranked = Inr s1 \<and> prefix q ranked
              \<and> buy_pass cl cfg today s1 q = Inr s"
  then have "0 \<le> cash s1" using sell_pass_cash assms by blast
  then show "0 \<le> cash s" using a buy_pass_cash by blast
qed

theorem cash_stays_non_negative_witness:
  "0 \<le> cash demo_start \<and> list_all (\<lambda>e. 0 \<le> entry_latest e) demo_ranked
   \<and> sell_pass demo_clients 100 demo_start demo_ranked = Inr demo_sold \<and> 0 \<le> cash demo_sold
   \<and> buy_pass demo_clients demo_settings 100 demo_sold demo_ranked = Inr demo_final
   \<and> 0 \<le> cash demo_final"
proof -
  have c0: "0 \<le> cash demo_start" by (simp add: demo_start_def)
  have pr: "\<forall>e \<in> set demo_ranked. 0 \<le> entry_latest e"
    by (simp add: demo_ranked_def entry_latest_def)
  have sp: "sell_pass demo_clients 100 demo_start demo_ranked = Inr demo_sold"
    by (simp add: demo_defs step_defs demo_sold_def)
  have bp: "buy_pass demo_clients demo_settings 100 demo_sold demo_ranked = Inr demo_final"
    by (simp add: demo_defs step_defs demo_sold_def demo_final_def)
  note inst = cash_stays_non_negative [OF c0 pr, of demo_clients 100 demo_settings]
  have "0 \<le> cash demo_sold" using inst sp by blast
  moreover have "0 \<le> cash demo_final" using inst sp bp by blast
  ultimately show ?thesis using c0 pr sp bp by (simp add: list_all_iff)
qed

text \<open>
  Claim C7. When the account and the ranking have been read and the clock reports the
  market closed, \<^verbatim>\<open>run_once\<close> returns after saving the state it loaded, unchanged;
  it prints no sell, buy or no-buy line and makes no further call to the broker.
\<close>

theorem closed_market_no_orders:
  assumes "get_account cl w = Inr (account_cash, w1)"
    and "rank_symbols cl w1 (watchlist cfg) (short_window cfg) (long_window cfg) (data_feed cfg)
           = Inr (ranked, w2)"
    and "get_clock cl w2 = Inr (False, w3)"
  shows "run_once cl cfg state today w
           = Inr \<lparr>world = w3, cash = account_cash, last_trade_day = state, decisions = []\<rparr>"
  using assms by (simp add: run_once_def)

theorem closed_market_no_orders_witness:
  "get_account closed_clients [] = Inr (1000, [])
   \<and> rank_symbols closed_clients [] (watchlist demo_settings) (short_window demo_settings)
        (long_window demo_settings) (data_feed demo_settings) = Inr (demo_ranked, [])
   \<and> get_clock closed_clients [] = Inr (False, [])
   \<and> run_once closed_clients demo_settings [''T'' \<mapsto> DayString 98] 100 []
        = Inr \<lparr>world = [], cash = 1000, last_trade_day = [''T'' \<mapsto> DayString 98],
               decisions = []\<rparr>"
proof -
  have a: "get_account closed_clients [] = Inr (1000, [])"
    by (simp add: closed_clients_def demo_defs)
  have b: "rank_symbols closed_clients [] (watchlist demo_settings) (short_window demo_settings)
        (long_window demo_settings) (data_feed demo_settings) = Inr (demo_ranked, [])"
    by (simp add: closed_clients_def demo_defs rank_defs)
  have c: "get_clock closed_clients [] = Inr (False, [])"
    by (simp add: closed_clients_def demo_defs)
  show ?thesis
    using a b c closed_market_no_orders [OF a b c] by simp
qed

section \<open>Failures\<close>

lemma rank_loop_append:
  "rank_loop cl w (xs @ ys) sw lw feed acc =
     (case rank_loop cl w xs sw lw feed acc of
        Inl e \<Rightarrow> Inl e
      | Inr (ranked, w') \<Rightarrow> rank_loop cl w' ys sw lw feed ranked)"
  by (induction xs arbitrary: w acc) (auto split: sum.splits prod.splits)

lemma rank_symbols_failure:
  assumes "rank_loop cl w pre sw lw feed [] = Inr (ranked0, w1)"
    and "get_last_n_closes cl w1 symb lw feed = Inl e"
  shows "rank_symbols cl w (pre @ symb # rest) sw lw feed = Inl e"
  using assms by (simp add: rank_symbols_def rank_loop_append)

lemma get_last_n_closes_not_enough:
  "(\<exists>m. get_last_n_closes cl w symb n feed = Inl (RuntimeError (NotEnoughBars symb n m)))
   \<longleftrightarrow> (\<exists>bars w'. get_stock_bars cl w symb feed = Inr (bars, w')
          \<and> int (length (case bars symb of None \<Rightarrow> [] | Some bs \<Rightarrow> bs)) < n)"
proof (cases "get_stock_bars cl w symb feed")
  case (Inl u)
  then show ?thesis
    by (cases u) (simp_all add: get_last_n_closes_def)
next
  case (Inr bw)
  obtain bars w' where bw: "bw = (bars, w')" by (cases bw)
  show ?thesis
    using Inr by (simp add: get_last_n_closes_def bw Let_def)
qed

lemma get_last_n_closes_upstream:
  assumes "get_stock_bars cl w symb feed = Inl u"
  shows "get_last_n_closes cl w symb n feed \<in>
           {Inl (RuntimeError SipNotPermitted), Inl (RuntimeError Unauthorized401),
            Inl (Upstream u)}"
  using assms by (cases u) (simp_all add: get_last_n_closes_def)

lemma run_once_account_failure:
  "get_account cl w = Inl u \<Longrightarrow> run_once cl cfg state today w = Inl (Upstream u)"
  by (simp add: run_once_def)

lemma run_once_rank_failure:
  "get_account cl w = Inr (c, w1) \<Longrightarrow>
   rank_symbols cl w1 (watchlist cfg) (short_window cfg) (long_window cfg) (data_feed cfg) = Inl e
   \<Longrightarrow> run_once cl cfg state today w = Inl e"
  by (simp add: run_once_def)

lemma run_once_clock_failure:
  "get_account cl w = Inr (c, w1) \<Longrightarrow>
   rank_symbols cl w1 (watchlist cfg) (short_window cfg) (long_window cfg) (data_feed cfg)
     = Inr (ranked, w2) \<Longrightarrow>
   get_clock cl w2 = Inl u \<Longrightarrow> run_once cl cfg state today w = Inl (Upstream u)"
  by (simp add: run_once_def)

lemma run_once_sell_failure:
  "get_account cl w = Inr (c, w1) \<Longrightarrow>
   rank_symbols cl w1 (watchlist cfg) (short_window cfg) (long_window cfg) (data_feed cfg)
     = Inr (ranked, w2) \<Longrightarrow>
   get_clock cl w2 = Inr (True, w3) \<Longrightarrow>
   sell_pass cl today \<lparr>world = w3, cash = c, last_trade_day = state, decisions = []\<rparr> ranked
     = Inl e \<Longrightarrow>
   run_once cl cfg state today w = Inl e"
  by (simp add: run_once_def)

lemma run_once_buy_failure:
  "get_account cl w = Inr (c, w1) \<Longrightarrow>
   rank_symbols cl w1 (watchlist cfg) (short_window cfg) (long_window cfg) (data_feed cfg)
     = Inr (ranked, w2) \<Longrightarrow>
   get_clock cl w2 = Inr (True, w3) \<Longrightarrow>
   sell_pass cl today \<lparr>world = w3, cash = c, last_trade_day = state, decisions = []\<rparr> ranked
     = Inr s1 \<Longrightarrow>
   buy_pass cl cfg today s1 ranked = Inl e \<Longrightarrow>
   run_once cl cfg state today w = Inl e"
  by (simp add: run_once_def)

lemma sell_pass_order_failure:
  assumes "sell_pass cl today st pre = Inr s1"
    and "current_position_qty cl (world s1) symb = (qty, wq)"
    and "qty > 0" and "short_avg < long_avg"
    and "market_sell cl wq symb qty = Inl u"
  shows "sell_pass cl today st (pre @ (symb, trend, short_avg, long_avg, latest) # post)
           = Inl (Upstream u)"
  using assms by (simp add: sell_pass_append sell_step_def)

lemma buy_pass_order_failure:
  assumes "buy_pass cl cfg today st pre = Inr s1"
    and "trend > 0"
    and "days_since (last_trade_day s1 symb) today = Inr waited"
    and "current_position_qty cl (world s1) symb = (qty, wq)"
    and "waited \<ge> wait_days cfg"
    and "qty + shares_per_trade cfg \<le> max_shares cfg"
    and "cash s1 \<ge> of_int (shares_per_trade cfg) * price"
    and "market_buy cl wq symb (shares_per_trade cfg) = Inl u"
  shows "buy_pass cl cfg today st (pre @ (symb, trend, short_avg, long_avg, price) # post)
           = Inl (Upstream u)"
  using assms by (simp add: buy_pass_append buy_step_def)

lemma current_position_qty_absorbs:
  "get_open_position cl w symb = (Inl u, w') \<Longrightarrow> current_position_qty cl w symb = (0, w')"
  by (simp add: current_position_qty_def)

text \<open>
  Claim C6, as the code has it. \<^verbatim>\<open>get_last_n_closes\<close> raises its not-enough-bars
  \<^verbatim>\<open>RuntimeError\<close> exactly when the bars request succeeded and returned fewer than
  \<open>lw\<close> closes for the symbol. Nothing catches it: when the symbols before it on the
  watchlist were scored, \<^verbatim>\<open>rank_symbols\<close> raises it and ranks no symbol, and
  \<^verbatim>\<open>run_once\<close> raises whatever \<^verbatim>\<open>rank_symbols\<close> raises, so the whole cycle ends.
\<close>

theorem insufficient_history_aborts_cycle:
  "((\<exists>m. get_last_n_closes cl w1 symb lw feed = Inl (RuntimeError (NotEnoughBars symb lw m)))
      \<longleftrightarrow> (\<exists>bars w'. get_stock_bars cl w1 symb feed = Inr (bars, w')
             \<and> int (length (case bars symb of None \<Rightarrow> [] | Some bs \<Rightarrow> bs)) < lw))
   \<and> (rank_loop cl w0 pre sw lw feed [] = Inr (ranked0, w1)
        \<and> get_last_n_closes cl w1 symb lw feed = Inl e
      \<longrightarrow> rank_symbols cl w0 (pre @ symb # rest) sw lw feed = Inl e)
   \<and> (get_account cl w = Inr (c, wa)
        \<and> rank_symbols cl wa (watchlist cfg) (short_window cfg) (long_window cfg)
              (data_feed cfg) = Inl e
      \<longrightarrow> run_once cl cfg state today w = Inl e)"
  using get_last_n_closes_not_enough [of cl w1 symb lw feed]
    rank_symbols_failure [of cl w0 pre sw lw feed ranked0 w1 symb e rest]
    run_once_rank_failure [of cl w c wa cfg e state today]
  by blast

theorem insufficient_history_aborts_cycle_witness:
  "get_stock_bars demo_clients [] ''PFE'' ''iex'' = Inr (demo_bars, [])
   \<and> int (length (case demo_bars ''PFE'' of None \<Rightarrow> [] | Some bs \<Rightarrow> bs)) < 5
   \<and> rank_loop demo_clients [] [''AAPL''] 2 5 ''iex'' [] = Inr ([(''AAPL'', 3 / 2, 9 / 2, 3, 5)], [])
   \<and> get_last_n_closes demo_clients [] ''PFE'' 5 ''iex''
        = Inl (RuntimeError (NotEnoughBars ''PFE'' 5 2))
   \<and> rank_symbols demo_clients [] ([''AAPL''] @ ''PFE'' # [''T'']) 2 5 ''iex''
        = Inl (RuntimeError (NotEnoughBars ''PFE'' 5 2))
   \<and> get_account demo_clients [] = Inr (1000, [])
   \<and> run_once demo_clients pfe_settings Map.empty 100 []
        = Inl (RuntimeError (NotEnoughBars ''PFE'' 5 2))"
proof -
  have bars: "get_stock_bars demo_clients [] ''PFE'' ''iex'' = Inr (demo_bars, [])"
    by (simp add: demo_clients_def)
  have few: "int (length (case demo_bars ''PFE'' of None \<Rightarrow> [] | Some bs \<Rightarrow> bs)) < 5"
    by (simp add: demo_bars_def)
  have pre: "rank_loop demo_clients [] [''AAPL''] 2 5 ''iex'' []
      = Inr ([(''AAPL'', 3 / 2, 9 / 2, 3, 5)], [])"
    by (simp add: demo_defs rank_defs)
  have acc: "get_account demo_clients [] = Inr (1000, [])"
    by (simp add: demo_clients_def)
  note inst = insufficient_history_aborts_cycle
    [of demo_clients "[]" "''PFE''" 5 "''iex''" "[]" "[''AAPL'']" 2
      "[(''AAPL'', 3 / 2, 9 / 2, 3, 5)]" "RuntimeError (NotEnoughBars ''PFE'' 5 2)"
      "[''T'']" "[]" 1000 "[]" pfe_settings Map.empty 100]
  from inst bars few obtain m where
    "get_last_n_closes demo_clients [] ''PFE'' 5 ''iex'' = Inl (RuntimeError (NotEnoughBars ''PFE'' 5 m))"
    by blast
  then have closes: "get_last_n_closes demo_clients [] ''PFE'' 5 ''iex''
      = Inl (RuntimeError (NotEnoughBars ''PFE'' 5 2))"
    by (simp add: get_last_n_closes_def demo_defs)
  from inst pre closes have rk: "rank_symbols demo_clients [] ([''AAPL''] @ ''PFE'' # [''T'']) 2 5 ''iex''
      = Inl (RuntimeError (NotEnoughBars ''PFE'' 5 2))"
    by blast
  then have "rank_symbols demo_clients [] (watchlist pfe_settings) (short_window pfe_settings)
      (long_window pfe_settings) (data_feed pfe_settings)
      = Inl (RuntimeError (NotEnoughBars ''PFE'' 5 2))"
    by (simp add: pfe_settings_def demo_settings_def)
  with inst acc have "run_once demo_clients pfe_settings Map.empty 100 []
      = Inl (RuntimeError (NotEnoughBars ''PFE'' 5 2))"
    by blast
  then show ?thesis using bars few pre closes rk acc by simp
qed

text \<open>
  Claim C6 as the specification states it does not hold: AAPL has enough history and is
  ranked when it is alone on the watchlist, but with PFE, which has two bars, beside it
  \<^verbatim>\<open>rank_symbols\<close> and the whole cycle end with PFE's error and AAPL is not ranked.
\<close>

theorem insufficient_history_counterexample:
  "rank_symbols demo_clients [] [''AAPL''] 2 5 ''iex''
     = Inr ([(''AAPL'', 3 / 2, 9 / 2, 3, 5)], [])
   \<and> rank_symbols demo_clients [] [''AAPL'', ''PFE''] 2 5 ''iex''
     = Inl (RuntimeError (NotEnoughBars ''PFE'' 5 2))
   \<and> run_once demo_clients (demo_settings\<lparr>watchlist := [''AAPL'', ''PFE'']\<rparr>) Map.empty 100 []
     = Inl (RuntimeError (NotEnoughBars ''PFE'' 5 2))"
  by (simp add: run_once_def demo_defs rank_defs)

text \<open>
  Claim C8, as the code has it. A failure of the account query, of the bars request,
  of the clock query or of an order leaves the function that made the call as an
  exception, and every function between that one and \<^verbatim>\<open>run_once\<close> lets it through:
  the cycle ends with it. (An \<^verbatim>\<open>APIError\<close> of the bars request is raised again, as
  it is or as a \<^verbatim>\<open>RuntimeError\<close> with advice.) The open-position query is the
  exception: \<^verbatim>\<open>current_position_qty\<close> catches whatever it raises and returns the
  quantity 0, and the cycle goes on.
\<close>

theorem upstream_failures_surface_except_position:
  "(get_account cl w = Inl u \<longrightarrow> run_once cl cfg state today w = Inl (Upstream u))
   \<and> (rank_loop cl wa pre sw lw feed [] = Inr (ranked0, wb)
        \<and> get_stock_bars cl wb symb feed = Inl u
      \<longrightarrow> (\<exists>e \<in> {RuntimeError SipNotPermitted, RuntimeError Unauthorized401, Upstream u}.
             rank_symbols cl wa (pre @ symb # rest) sw lw feed = Inl e))
   \<and> (get_account cl w = Inr (c, w1)
        \<and> rank_symbols cl w1 (watchlist cfg) (short_window cfg) (long_window cfg)
              (data_feed cfg) = Inl e
      \<longrightarrow> run_once cl cfg state today w = Inl e)
   \<and> (get_account cl w = Inr (c, w1)
        \<and> rank_symbols cl w1 (watchlist cfg) (short_window cfg) (long_window cfg)
              (data_feed cfg) = Inr (ranked, w2)
        \<and> get_clock cl w2 = Inl u
      \<longrightarrow> run_once cl cfg state today w = Inl (Upstream u))
   \<and> (sell_pass cl today st spre = Inr s1
        \<and> current_position_qty cl (world s1) symb = (qty, wq)
        \<and> 0 < qty \<and> short_avg < long_avg
        \<and> market_sell cl wq symb qty = Inl u
      \<longrightarrow> sell_pass cl today st (spre @ (symb, trend, short_avg, long_avg, latest) # spost)
            = Inl (Upstream u))
   \<and> (buy_pass cl cfg today st bpre = Inr s1
        \<and> 0 < trend
        \<and> days_since (last_trade_day s1 symb) today = Inr waited
        \<and> current_position_qty cl (world s1) symb = (qty, wq)
        \<and> wait_days cfg \<le> waited
        \<and> qty + shares_per_trade cfg \<le> max_shares cfg
        \<and> of_int (shares_per_trade cfg) * latest \<le> cash s1
        \<and> market_buy cl wq symb (shares_per_trade cfg) = Inl u
      \<longrightarrow> buy_pass cl cfg today st (bpre @ (symb, trend, short_avg, long_avg, latest) # bpost)
            = Inl (Upstream u))
   \<and> (get_account cl w = Inr (c, w1)
        \<and> rank_symbols cl w1 (watchlist cfg) (short_window cfg) (long_window cfg)
              (data_feed cfg) = Inr (ranked, w2)
        \<and> get_clock cl w2 = Inr (True, w3)
        \<and> sell_pass cl today
              \<lparr>world = w3, cash = c, last_trade_day = state, decisions = []\<rparr> ranked = Inl e
      \<longrightarrow> run_once cl cfg state today w = Inl e)
   \<and> (get_account cl w = Inr (c, w1)
        \<and> rank_symbols cl w1 (watchlist cfg) (short_window cfg) (long_window cfg)
              (data_feed cfg) = Inr (ranked, w2)
        \<and> get_clock cl w2 = Inr (True, w3)
        \<and> sell_pass cl today
              \<lparr>world = w3, cash = c, last_trade_day = state, decisions = []\<rparr> ranked = Inr s2
        \<and> buy_pass cl cfg today s2 ranked = Inl e
      \<longrightarrow> run_once cl cfg state today w = Inl e)
   \<and> (get_open_position cl w symb = (Inl u, w') \<longrightarrow> current_position_qty cl w symb = (0, w'))"
proof (intro conjI impI)
  assume "get_account cl w = Inl u"
  then show "run_once cl cfg state today w = Inl (Upstream u)"
    by (rule run_once_account_failure)
next
  assume a: "rank_loop cl wa pre sw lw feed [] = Inr (ranked0, wb)
        \<and> get_stock_bars cl wb symb feed = Inl u"
  then have "get_last_n_closes cl wb symb lw feed \<in>
       {Inl (RuntimeError SipNotPermitted), Inl (RuntimeError Unauthorized401), Inl (Upstream u)}"
    by (simp only: get_last_n_closes_upstream)
  then obtain e where e: "get_last_n_closes cl wb symb lw feed = Inl e"
    "e \<in> {RuntimeError SipNotPermitted, RuntimeError Unauthorized401, Upstream u}"
    by auto
  have "rank_symbols cl wa (pre @ symb # rest) sw lw feed = Inl e"
    using a e(1) by (simp only: rank_symbols_failure)
  then show "\<exists>e \<in> {RuntimeError SipNotPermitted, RuntimeError Unauthorized401, Upstream u}.
             rank_symbols cl wa (pre @ symb # rest) sw lw feed = Inl e"
    using e(2) by blast
next
  assume "get_account cl w = Inr (c, w1)
        \<and> rank_symbols cl w1 (watchlist cfg) (short_window cfg) (long_window cfg)
              (data_feed cfg) = Inl e"
  then show "run_once cl cfg state today w = Inl e"
    by (elim conjE) (rule run_once_rank_failure, assumption+)
next
  assume "get_account cl w = Inr (c, w1)
        \<and> rank_symbols cl w1 (watchlist cfg) (short_window cfg) (long_window cfg)
              (data_feed cfg) = Inr (ranked, w2)
        \<and> get_clock cl w2 = Inl u"
  then show "run_once cl cfg state today w = Inl (Upstream u)"
    by (elim conjE) (rule run_once_clock_failure, assumption+)
next
  assume "sell_pass cl today st spre = Inr s1
        \<and> current_position_qty cl (world s1) symb = (qty, wq)
        \<and> 0 < qty \<and> short_avg < long_avg
        \<and> market_sell cl wq symb qty = Inl u"
  then show "sell_pass cl today st (spre @ (symb, trend, short_avg, long_avg, latest) # spost)
            = Inl (Upstream u)"
    by (elim conjE) (rule sell_pass_order_failure, assumption+)
next
  assume "buy_pass cl cfg today st bpre = Inr s1
        \<and> 0 < trend
        \<and> days_since (last_trade_day s1 symb) today = Inr waited
        \<and> current_position_qty cl (world s1) symb = (qty, wq)
        \<and> wait_days cfg \<le> waited
        \<and> qty + shares_per_trade cfg \<le> max_shares cfg
        \<and> of_int (shares_per_trade cfg) * latest \<le> cash s1
        \<and> market_buy cl wq symb (shares_per_trade cfg) = Inl u"
  then show "buy_pass cl cfg today st (bpre @ (symb, trend, short_avg, long_avg, latest) # bpost)
            = Inl (Upstream u)"
    by (elim conjE) (rule buy_pass_order_failure, assumption+)
next
  assume "get_account cl w = Inr (c, w1)
        \<and> rank_symbols cl w1 (watchlist cfg) (short_window cfg) (long_window cfg)
              (data_feed cfg) = Inr (ranked, w2)
        \<and> get_clock cl w2 = Inr (True, w3)
        \<and> sell_pass cl today
              \<lparr>world = w3, cash = c, last_trade_day = state, decisions = []\<rparr> ranked = Inl e"
  then show "run_once cl cfg state today w = Inl e"
    by (elim conjE) (rule run_once_sell_failure, assumption+)
next
  assume "get_account cl w = Inr (c, w1)
        \<and> rank_symbols cl w1 (watchlist cfg) (short_window cfg) (long_window cfg)
              (data_feed cfg) = Inr (ranked, w2)
        \<and> get_clock cl w2 = Inr (True, w3)
        \<and> sell_pass cl today
              \<lparr>world = w3, cash = c, last_trade_day = state, decisions = []\<rparr> ranked = Inr s2
        \<and> buy_pass cl cfg today s2 ranked = Inl e"
  then show "run_once cl cfg state today w = Inl e"
    by (elim conjE) (rule run_once_buy_failure, assumption+)
next
  assume "get_open_position cl w symb = (Inl u, w')"
  then show "current_position_qty cl w symb = (0, w')"
    by (rule current_position_qty_absorbs)
qed

theorem upstream_failures_surface_except_position_witness:
  "get_account account_down [] = Inl (OtherException ''connection refused'')
   \<and> run_once account_down demo_settings Map.empty 100 []
        = Inl (Upstream (OtherException ''connection refused''))
   \<and> get_stock_bars data_down [] ''T'' ''iex'' = Inl (APIError ''401 Unauthorized'')
   \<and> rank_symbols data_down [] ([] @ ''T'' # [''AAPL'']) 2 5 ''iex''
        = Inl (RuntimeError Unauthorized401)
   \<and> run_once data_down demo_settings Map.empty 100 [] = Inl (RuntimeError Unauthorized401)
   \<and> get_clock clock_down [] = Inl (OtherException ''connection refused'')
   \<and> run_once clock_down demo_settings Map.empty 100 []
        = Inl (Upstream (OtherException ''connection refused''))
   \<and> market_sell orders_rejected [] ''T'' 10 = Inl (APIError ''rejected'')
   \<and> sell_pass orders_rejected 100 demo_start
        ([(''AAPL'', 3 / 2, 9 / 2, 3, 5)] @ (''T'', - (3 / 2), 11 / 2, 7, 5) # [])
        = Inl (Upstream (APIError ''rejected''))
   \<and> run_once orders_rejected demo_settings Map.empty 100 []
        = Inl (Upstream (APIError ''rejected''))
   \<and> market_buy buys_rejected [(''T'', 10, OrderSide_SELL)] ''AAPL'' 50
        = Inl (APIError ''rejected'')
   \<and> buy_pass buys_rejected demo_settings 100 demo_sold
        ([] @ (''AAPL'', 3 / 2, 9 / 2, 3, 5) # [(''T'', - (3 / 2), 11 / 2, 7, 5)])
        = Inl (Upstream (APIError ''rejected''))
   \<and> run_once buys_rejected demo_settings Map.empty 100 []
        = Inl (Upstream (APIError ''rejected''))
   \<and> get_open_position demo_clients [] ''AAPL''
        = (Inl (APIError ''position does not exist''), [])
   \<and> current_position_qty demo_clients [] ''AAPL'' = (0, [])"
proof -
  let ?start = "\<lparr>world = [], cash = 1000, last_trade_day = Map.empty, decisions = []\<rparr>
                  :: order_book run_state"
  have start: "?start = demo_start" by (simp add: demo_start_def)
  \<comment> \<open>the account query fails\<close>
  have a1: "get_account account_down [] = Inl (OtherException ''connection refused'')"
    by (simp add: account_down_def)
  have a2: "run_once account_down demo_settings Map.empty 100 []
      = Inl (Upstream (OtherException ''connection refused''))"
    using a1 upstream_failures_surface_except_position
      [where cl = account_down and w = "[]" and u = "OtherException ''connection refused''"
        and cfg = demo_settings and state = Map.empty and today = 100]
    by simp
  \<comment> \<open>the bars request fails\<close>
  have b0: "rank_loop data_down [] [] 2 5 ''iex'' [] = Inr ([], [])" by simp
  have b1: "get_stock_bars data_down [] ''T'' ''iex'' = Inl (APIError ''401 Unauthorized'')"
    by (simp add: data_down_def)
  have "\<exists>e \<in> {RuntimeError SipNotPermitted, RuntimeError Unauthorized401,
                Upstream (APIError ''401 Unauthorized'')}.
          rank_symbols data_down [] ([] @ ''T'' # [''AAPL'']) 2 5 ''iex'' = Inl e"
    using b0 b1 upstream_failures_surface_except_position
      [where cl = data_down and wa = "[]" and pre = "[]" and sw = 2 and lw = 5
        and feed = "''iex''" and ranked0 = "[]" and wb = "[]" and symb = "''T''"
        and u = "APIError ''401 Unauthorized''" and rest = "[''AAPL'']"]
    by simp
  then have b2: "rank_symbols data_down [] ([] @ ''T'' # [''AAPL'']) 2 5 ''iex''
      = Inl (RuntimeError Unauthorized401)"
    by (simp add: data_down_def rank_defs)
  have b3: "get_account data_down [] = Inr (1000, [])"
    by (simp add: data_down_def demo_clients_def)
  have b4: "run_once data_down demo_settings Map.empty 100 [] = Inl (RuntimeError Unauthorized401)"
    using b2 b3 upstream_failures_surface_except_position
      [where cl = data_down and w = "[]" and c = 1000 and ?w1.0 = "[]" and cfg = demo_settings
        and e = "RuntimeError Unauthorized401" and state = Map.empty and today = 100]
    by (simp add: demo_settings_def)
  \<comment> \<open>the clock query fails\<close>
  have c1: "get_account clock_down [] = Inr (1000, [])"
    by (simp add: clock_down_def demo_clients_def)
  have c2: "rank_symbols clock_down [] (watchlist demo_settings) (short_window demo_settings)
      (long_window demo_settings) (data_feed demo_settings) = Inr (demo_ranked, [])"
    by (simp add: clock_down_def demo_defs rank_defs)
  have c3: "get_clock clock_down [] = Inl (OtherException ''connection refused'')"
    by (simp add: clock_down_def)
  have c4: "run_once clock_down demo_settings Map.empty 100 []
      = Inl (Upstream (OtherException ''connection refused''))"
    using c1 c2 c3 upstream_failures_surface_except_position
      [where cl = clock_down and w = "[]" and c = 1000 and ?w1.0 = "[]" and cfg = demo_settings
        and ranked = demo_ranked and ?w2.0 = "[]" and u = "OtherException ''connection refused''"
        and state = Map.empty and today = 100]
    by simp
  \<comment> \<open>a sell order fails\<close>
  have d1: "sell_pass orders_rejected 100 demo_start [(''AAPL'', 3 / 2, 9 / 2, 3, 5)]
      = Inr demo_start"
    by (simp add: orders_rejected_def demo_defs step_defs)
  have d2: "current_position_qty orders_rejected (world demo_start) ''T'' = (10, [])"
    by (simp add: orders_rejected_def demo_defs step_defs)
  have d3: "market_sell orders_rejected [] ''T'' 10 = Inl (APIError ''rejected'')"
    by (simp add: orders_rejected_def market_sell_def)
  have d4: "sell_pass orders_rejected 100 demo_start
      ([(''AAPL'', 3 / 2, 9 / 2, 3, 5)] @ (''T'', - (3 / 2), 11 / 2, 7, 5) # [])
      = Inl (Upstream (APIError ''rejected''))"
    using d1 d2 d3 upstream_failures_surface_except_position
      [where cl = orders_rejected and today = 100 and st = demo_start
        and spre = "[(''AAPL'', 3 / 2, 9 / 2, 3, 5)]" and ?s1.0 = demo_start
        and symb = "''T''" and qty = 10 and wq = "[]" and short_avg = "11 / 2"
        and long_avg = 7 and u = "APIError ''rejected''" and trend = "- (3 / 2)"
        and latest = 5 and spost = "[]"]
    by simp
  have d5: "get_account orders_rejected [] = Inr (1000, [])"
    by (simp add: orders_rejected_def demo_clients_def)
  have d6: "rank_symbols orders_rejected [] (watchlist demo_settings)
      (short_window demo_settings) (long_window demo_settings) (data_feed demo_settings)
      = Inr (demo_ranked, [])"
    by (simp add: orders_rejected_def demo_defs rank_defs)
  have d7: "get_clock orders_rejected [] = Inr (True, [])"
    by (simp add: orders_rejected_def demo_clients_def)
  have d8: "sell_pass orders_rejected 100 ?start demo_ranked = Inl (Upstream (APIError ''rejected''))"
    using d4 by (simp add: start demo_ranked_def)
  have d9: "run_once orders_rejected demo_settings Map.empty 100 []
      = Inl (Upstream (APIError ''rejected''))"
    using d5 d6 d7 d8 upstream_failures_surface_except_position
      [where cl = orders_rejected and w = "[]" and c = 1000 and ?w1.0 = "[]"
        and cfg = demo_settings and ranked = demo_ranked and ?w2.0 = "[]" and ?w3.0 = "[]"
        and today = 100 and state = Map.empty and e = "Upstream (APIError ''rejected'')"]
    by simp
  \<comment> \<open>a buy order fails\<close>
  have e1: "buy_pass buys_rejected demo_settings 100 demo_sold [] = Inr demo_sold" by simp
  have e2: "days_since (last_trade_day demo_sold ''AAPL'') 100 = Inr (10 ^ 9)"
    by (simp add: demo_sold_def days_since_def)
  have e3: "current_position_qty buys_rejected (world demo_sold) ''AAPL''
      = (0, [(''T'', 10, OrderSide_SELL)])"
    by (simp add: buys_rejected_def demo_defs step_defs demo_sold_def)
  have e4: "market_buy buys_rejected [(''T'', 10, OrderSide_SELL)] ''AAPL'' 50
      = Inl (APIError ''rejected'')"
    by (simp add: buys_rejected_def market_buy_def)
  have e5: "buy_pass buys_rejected demo_settings 100 demo_sold
      ([] @ (''AAPL'', 3 / 2, 9 / 2, 3, 5) # [(''T'', - (3 / 2), 11 / 2, 7, 5)])
      = Inl (Upstream (APIError ''rejected''))"
    using e1 e2 e3 e4 upstream_failures_surface_except_position
      [where cl = buys_rejected and cfg = demo_settings and today = 100 and st = demo_sold
        and bpre = "[]" and ?s1.0 = demo_sold and trend = "3 / 2" and symb = "''AAPL''"
        and waited = "10 ^ 9" and qty = 0 and wq = "[(''T'', 10, OrderSide_SELL)]"
        and latest = 5 and u = "APIError ''rejected''" and short_avg = "9 / 2"
        and long_avg = 3 and bpost = "[(''T'', - (3 / 2), 11 / 2, 7, 5)]"]
    by (simp add: demo_settings_def demo_sold_def)
  have e6: "get_account buys_rejected [] = Inr (1000, [])"
    by (simp add: buys_rejected_def demo_clients_def)
  have e7: "rank_symbols buys_rejected [] (watchlist demo_settings)
      (short_window demo_settings) (long_window demo_settings) (data_feed demo_settings)
      = Inr (demo_ranked, [])"
    by (simp add: buys_rejected_def demo_defs rank_defs)
  have e8: "get_clock buys_rejected [] = Inr (True, [])"
    by (simp add: buys_rejected_def demo_clients_def)
  have e9: "sell_pass buys_rejected 100 ?start demo_ranked = Inr demo_sold"
    by (simp add: buys_rejected_def demo_defs step_defs demo_sold_def)
  have e10: "buy_pass buys_rejected demo_settings 100 demo_sold demo_ranked
      = Inl (Upstream (APIError ''rejected''))"
    using e5 by (simp add: demo_ranked_def)
  have e11: "run_once buys_rejected demo_settings Map.empty 100 []
      = Inl (Upstream (APIError ''rejected''))"
    using e6 e7 e8 e9 e10 upstream_failures_surface_except_position
      [where cl = buys_rejected and w = "[]" and c = 1000 and ?w1.0 = "[]"
        and cfg = demo_settings and ranked = demo_ranked and ?w2.0 = "[]" and ?w3.0 = "[]"
        and today = 100 and state = Map.empty and ?s2.0 = demo_sold
        and e = "Upstream (APIError ''rejected'')"]
    by simp
  \<comment> \<open>the open-position query fails\<close>
  have f1: "get_open_position demo_clients [] ''AAPL''
      = (Inl (APIError ''position does not exist''), [])"
    by (simp add: demo_clients_def)
  have f2: "current_position_qty demo_clients [] ''AAPL'' = (0, [])"
    using f1 upstream_failures_surface_except_position
      [where cl = demo_clients and w = "[]" and symb = "''AAPL''"
        and u = "APIError ''position does not exist''" and w' = "[]"]
    by simp
  show ?thesis
    using a1 a2 b1 b2 b4 c3 c4 d3 d4 d9 e4 e5 e11 f1 f2 by simp
qed

text \<open>
  Claim C8 as the specification states it does not hold. In the demo world the
  open-position query for AAPL raises \<^verbatim>\<open>APIError\<close>, in the sell loop and again in the
  buy loop. The cycle does not end with that error: the quantity 0 stands in for the
  answer, AAPL is bought and \<^verbatim>\<open>run_once\<close> returns.
\<close>

theorem position_failure_absorbed_counterexample:
  "get_open_position demo_clients [(''T'', 10, OrderSide_SELL)] ''AAPL''
     = (Inl (APIError ''position does not exist''), [(''T'', 10, OrderSide_SELL)])
   \<and> current_position_qty demo_clients [(''T'', 10, OrderSide_SELL)] ''AAPL''
     = (0, [(''T'', 10, OrderSide_SELL)])
   \<and> run_once demo_clients demo_settings Map.empty 100 [] = Inr demo_final
   \<and> decisions demo_final = [Sell ''T'' 10, Buy ''AAPL'' 50]"
  by (simp add: run_once_def demo_defs rank_defs step_defs demo_final_def)

end
